theory Spec2Isabelle
  imports Complex_Main
begin

section \<open>JavaScript values\<close>

text \<open>
  The code verified is in \<^verbatim>\<open>src/.evergreen/generate_evergreen_tasks.js\<close>. After
  the task generator (lines 1 to 62) the file holds two TypeScript modules of the
  driver: the raw-command cursor, class \<^verbatim>\<open>RunCommandCursor\<close> (lines 63 to 200), and
  the index operations (lines 201 to 618). Their data are JavaScript values, modelled
  by one datatype.

  \<^item> A number is a rational: every finite JavaScript number is one. \<open>NaN\<close> and the
    infinities are outside the model. The conversion of a number to a string is the
    runtime's and is not computed here: it is a parameter, \<open>numberToString\<close>, of
    every function that converts a value to a string, and the theorems hold for
    every such conversion.
  \<^item> A plain object is the list of its own enumerable properties in the order
    \<^verbatim>\<open>Object.entries\<close> yields them; a \<^verbatim>\<open>Map\<close> is the list of its entries in
    insertion order. In both the keys are pairwise distinct.
  \<^item> \<^verbatim>\<open>Map\<close> keys are compared structurally. For the strings that the declared type
    \<^verbatim>\<open>Map<string, IndexDirection>\<close> allows this is JavaScript's own comparison.
\<close>

datatype jsval =
    JUndefined
  | JNull
  | JBool bool
  | JNum rat
  | JStr string
  | JArr "jsval list"
  | JObj "(string \<times> jsval) list"
  | JMap "(jsval \<times> jsval) list"

type_synonym js_object = "(string \<times> jsval) list"
type_synonym js_map = "(jsval \<times> jsval) list"

text \<open>Errors the modelled code can raise or pass on.\<close>

datatype error =
    MongoCompatibilityError string
  | MongoAPIError string
  | TypeError
  | RemoteError string

text \<open>\<^verbatim>\<open>x == null\<close>, the test behind \<^verbatim>\<open>??\<close> and \<^verbatim>\<open>!= null\<close>.\<close>

fun nullish :: "jsval \<Rightarrow> bool" where
  "nullish JUndefined = True"
| "nullish JNull = True"
| "nullish _ = False"

text \<open>\<^verbatim>\<open>a ?? b\<close>\<close>

definition coalesce :: "jsval \<Rightarrow> jsval \<Rightarrow> jsval" where
  "coalesce a b = (if nullish a then b else a)"

text \<open>Truthiness, the test behind \<^verbatim>\<open>a ? b : c\<close> and \<^verbatim>\<open>a || b\<close>.\<close>

fun truthy :: "jsval \<Rightarrow> bool" where
  "truthy JUndefined = False"
| "truthy JNull = False"
| "truthy (JBool b) = b"
| "truthy (JNum n) = (n \<noteq> 0)"
| "truthy (JStr s) = (s \<noteq> [])"
| "truthy (JArr xs) = True"
| "truthy (JObj es) = True"
| "truthy (JMap m) = True"

text \<open>\<^verbatim>\<open>a || b\<close>\<close>

definition js_or :: "jsval \<Rightarrow> jsval \<Rightarrow> jsval" where
  "js_or a b = (if truthy a then a else b)"

text \<open>
  Writing a property (\<^verbatim>\<open>o[k] = v\<close>, a later entry of an object literal or of
  \<^verbatim>\<open>Object.fromEntries\<close>) and \<^verbatim>\<open>Map.prototype.set\<close>: an existing key keeps its
  position and takes the new value, a new key goes to the end.
\<close>

fun set_entry :: "'k \<Rightarrow> 'v \<Rightarrow> ('k \<times> 'v) list \<Rightarrow> ('k \<times> 'v) list" where
  "set_entry k v [] = [(k, v)]"
| "set_entry k v ((k', v') # es) =
     (if k' = k then (k, v) # es else (k', v') # set_entry k v es)"

text \<open>
  \<^verbatim>\<open>new Map(entries)\<close>, \<^verbatim>\<open>Object.fromEntries(entries)\<close> and the spread
  \<^verbatim>\<open>{...a, ...b}\<close>: the entries are written one after the other.
\<close>

definition set_entries :: "('k \<times> 'v) list \<Rightarrow> ('k \<times> 'v) list \<Rightarrow> ('k \<times> 'v) list" where
  "set_entries target es = foldl (\<lambda>acc (k, v). set_entry k v acc) target es"

definition from_entries :: "('k \<times> 'v) list \<Rightarrow> ('k \<times> 'v) list" where
  "from_entries es = set_entries [] es"

text \<open>Reading a property: an absent one reads as \<^verbatim>\<open>undefined\<close>.\<close>

definition get_prop :: "js_object \<Rightarrow> string \<Rightarrow> jsval" where
  "get_prop obj k = (case map_of obj k of None \<Rightarrow> JUndefined | Some v \<Rightarrow> v)"

text \<open>\<^verbatim>\<open>delete o[k]\<close>\<close>

definition delete_prop :: "string \<Rightarrow> js_object \<Rightarrow> js_object" where
  "delete_prop k obj = filter (\<lambda>(k', v). k' \<noteq> k) obj"

text \<open>
  Decimal numerals. A natural number written in decimal is the name of an array
  index, as \<^verbatim>\<open>Object.entries\<close> yields it.
\<close>

fun string_of_nat :: "nat \<Rightarrow> string" where
  "string_of_nat n =
     (if n < 10 then [''0123456789'' ! n]
      else string_of_nat (n div 10) @ [''0123456789'' ! (n mod 10)])"

definition string_of_int :: "int \<Rightarrow> string" where
  "string_of_int i =
     (if i < 0 then CHR ''-'' # string_of_nat (nat (- i)) else string_of_nat (nat i))"

text \<open>
  A conversion of numbers to strings for the examples: the decimal numeral of the
  integer part. On the whole numbers of magnitude up to \<open>2^53\<close>, those of the
  examples among them, JavaScript's conversion yields the same string.
\<close>

definition decimal :: "rat \<Rightarrow> string" where
  "decimal q = string_of_int \<lfloor>q\<rfloor>"

fun join_strings :: "string \<Rightarrow> string list \<Rightarrow> string" where
  "join_strings sep [] = []"
| "join_strings sep [x] = x"
| "join_strings sep (x # y # ys) = x @ sep @ join_strings sep (y # ys)"

text \<open>
  The string conversion that \<^verbatim>\<open>Array.prototype.join\<close> applies to an element, given
  the conversion of numbers. An array converts to its elements joined by commas.
\<close>

fun to_string :: "(rat \<Rightarrow> string) \<Rightarrow> jsval \<Rightarrow> string" where
  "to_string numberToString JUndefined = ''undefined''"
| "to_string numberToString JNull = ''null''"
| "to_string numberToString (JBool b) = (if b then ''true'' else ''false'')"
| "to_string numberToString (JNum n) = numberToString n"
| "to_string numberToString (JStr s) = s"
| "to_string numberToString (JArr xs) =
     join_strings '',''
       (map (\<lambda>x. case x of JUndefined \<Rightarrow> [] | JNull \<Rightarrow> []
                 | _ \<Rightarrow> to_string numberToString x) xs)"
| "to_string numberToString (JObj es) = ''[object Object]''"
| "to_string numberToString (JMap m) = ''[object Map]''"

text \<open>\<^verbatim>\<open>xs.join(sep)\<close>: \<^verbatim>\<open>undefined\<close> and \<^verbatim>\<open>null\<close> elements give the empty string.\<close>

definition array_join :: "(rat \<Rightarrow> string) \<Rightarrow> string \<Rightarrow> jsval list \<Rightarrow> string" where
  "array_join numberToString sep xs =
     join_strings sep (map (\<lambda>x. if nullish x then [] else to_string numberToString x) xs)"

text \<open>\<^verbatim>\<open>Array.from(m)\<close> of a \<^verbatim>\<open>Map\<close>: one two-element array per entry.\<close>

definition array_from_map :: "js_map \<Rightarrow> jsval list" where
  "array_from_map m = map (\<lambda>(k, v). JArr [k, v]) m"

text \<open>\<^verbatim>\<open>xs.flat()\<close>: one level of nesting is removed.\<close>

definition flat :: "jsval list \<Rightarrow> jsval list" where
  "flat xs = concat (map (\<lambda>x. case x of JArr ys \<Rightarrow> ys | _ \<Rightarrow> [x]) xs)"

text \<open>
  \<^verbatim>\<open>Object.entries(x)\<close>: a \<^verbatim>\<open>TypeError\<close> on \<^verbatim>\<open>undefined\<close> and \<^verbatim>\<open>null\<close>, the
  indexed elements of an array and the indexed characters of a string, the own
  properties of an object; numbers, booleans and \<^verbatim>\<open>Map\<close>s have none.
\<close>

definition indexed :: "jsval list \<Rightarrow> js_object" where
  "indexed xs = map (\<lambda>(i, x). (string_of_nat i, x)) (enumerate 0 xs)"

fun object_entries :: "jsval \<Rightarrow> error + js_object" where
  "object_entries JUndefined = Inl TypeError"
| "object_entries JNull = Inl TypeError"
| "object_entries (JBool b) = Inr []"
| "object_entries (JNum n) = Inr []"
| "object_entries (JStr s) = Inr (indexed (map (\<lambda>c. JStr [c]) s))"
| "object_entries (JArr xs) = Inr (indexed xs)"
| "object_entries (JObj es) = Inr es"
| "object_entries (JMap m) = Inr []"

text \<open>\<^verbatim>\<open>xs[i]\<close>: \<^verbatim>\<open>undefined\<close> beyond the end.\<close>

definition at_index :: "jsval list \<Rightarrow> nat \<Rightarrow> jsval" where
  "at_index xs i = (if i < length xs then xs ! i else JUndefined)"

section \<open>Index operations\<close>

text \<open>
  Lines 201 to 618 of the source file. An index description, a set of options and a
  command document are plain objects; an index key is a plain object or a \<^verbatim>\<open>Map\<close>
  from field names to directions.
\<close>

definition VALID_INDEX_OPTIONS :: "string list" where
  "VALID_INDEX_OPTIONS =
     [''background'', ''unique'', ''name'', ''partialFilterExpression'', ''sparse'',
      ''hidden'', ''expireAfterSeconds'', ''storageEngine'', ''collation'', ''version'',
      ''weights'', ''default_language'', ''language_override'', ''textIndexVersion'',
      ''2dsphereIndexVersion'',
      ''bits'', ''min'', ''max'',
      ''bucketSize'',
      ''wildcardProjection'']"

text \<open>\<^verbatim>\<open>VALID_INDEX_OPTIONS.has(optionName)\<close>\<close>

definition valid_index_option :: "string \<Rightarrow> bool" where
  "valid_index_option optionName = (optionName \<in> set VALID_INDEX_OPTIONS)"

fun isIndexDirection :: "jsval \<Rightarrow> bool" where
  "isIndexDirection (JNum n) = True"
| "isIndexDirection (JStr x) =
     (x = ''2d'' \<or> x = ''2dsphere'' \<or> x = ''text'' \<or> x = ''geoHaystack'')"
| "isIndexDirection _ = False"

fun isSingleIndexTuple :: "jsval \<Rightarrow> bool" where
  "isSingleIndexTuple (JArr t) = (length t = 2 \<and> isIndexDirection (at_index t 1))"
| "isSingleIndexTuple _ = False"

text \<open>
  The body of the loop of \<^verbatim>\<open>constructIndexDescriptionMap\<close>, one equation per branch:
  a string, an array, a \<^verbatim>\<open>Map\<close>, a plain object, anything else. The last test is
  \<^verbatim>\<open>isObject\<close> of \<^verbatim>\<open>../utils\<close>, which holds of plain objects.
\<close>

fun index_spec_step :: "js_map \<Rightarrow> jsval \<Rightarrow> js_map" where
  "index_spec_step key (JStr spec) = set_entry (JStr spec) (JNum 1) key"
| "index_spec_step key (JArr spec) =
     set_entry (at_index spec 0) (coalesce (at_index spec 1) (JNum 1)) key"
| "index_spec_step key (JMap spec) = set_entries key spec"
| "index_spec_step key (JObj spec) =
     set_entries key (map (\<lambda>(property, v). (JStr property, v)) spec)"
| "index_spec_step key _ = key"

definition constructIndexDescriptionMap :: "jsval \<Rightarrow> js_map" where
  "constructIndexDescriptionMap indexSpec =
     (let indexSpecs =
            (case indexSpec of
               JArr xs \<Rightarrow> if isSingleIndexTuple indexSpec then [indexSpec] else xs
             | _ \<Rightarrow> [indexSpec])
      in foldl index_spec_step [] indexSpecs)"

definition resolveIndexDescription :: "js_object \<Rightarrow> js_object" where
  "resolveIndexDescription description =
     (let validProvidedOptions =
            filter (\<lambda>(optionName, v). valid_index_option optionName) description
      in from_entries
           (map (\<lambda>(name, v). if name = ''version'' then (''v'', v) else (name, v))
              validProvidedOptions))"

text \<open>
  The key of a user index as a \<^verbatim>\<open>Map\<close>:
  \<^verbatim>\<open>userIndex.key instanceof Map ? userIndex.key : new Map(Object.entries(userIndex.key))\<close>
\<close>

definition index_key_map :: "jsval \<Rightarrow> error + js_map" where
  "index_key_map k =
     (case k of
        JMap m \<Rightarrow> Inr m
      | _ \<Rightarrow> (case object_entries k of
                Inl e \<Rightarrow> Inl e
              | Inr es \<Rightarrow> Inr (from_entries (map (\<lambda>(property, v). (JStr property, v)) es))))"

text \<open>\<^verbatim>\<open>Array.from(key).flat().join('_')\<close>\<close>

definition default_index_name :: "(rat \<Rightarrow> string) \<Rightarrow> js_map \<Rightarrow> string" where
  "default_index_name numberToString key =
     array_join numberToString ''_'' (flat (array_from_map key))"

text \<open>The function that the constructor maps over the caller's index descriptions.\<close>

definition resolve_user_index ::
  "(rat \<Rightarrow> string) \<Rightarrow> js_object \<Rightarrow> error + js_object" where
  "resolve_user_index numberToString userIndex =
     (case index_key_map (get_prop userIndex ''key'') of
        Inl e \<Rightarrow> Inl e
      | Inr key \<Rightarrow>
          (let name = coalesce (get_prop userIndex ''name'')
                        (JStr (default_index_name numberToString key));
               validIndexOptions = resolveIndexDescription userIndex
           in Inr (set_entry ''key'' (JMap key) (set_entry ''name'' name validIndexOptions))))"

text \<open>\<^verbatim>\<open>xs.map(f)\<close> for an \<open>f\<close> that can throw: the first exception ends the loop.\<close>

fun map_result :: "('a \<Rightarrow> error + 'b) \<Rightarrow> 'a list \<Rightarrow> error + 'b list" where
  "map_result f [] = Inr []"
| "map_result f (x # xs) =
     (case f x of
        Inl e \<Rightarrow> Inl e
      | Inr y \<Rightarrow> (case map_result f xs of Inl e \<Rightarrow> Inl e | Inr ys \<Rightarrow> Inr (y # ys)))"

text \<open>
  The operation classes extend \<^verbatim>\<open>CommandOperation\<close> of \<^verbatim>\<open>./command\<close>, of which
  the sources use the \<^verbatim>\<open>options\<close> field and the method \<^verbatim>\<open>executeCommand\<close>.
\<close>

record CommandOperation =
  options :: js_object

record CreateIndexesOperation = CommandOperation +
  collectionName :: string
  indexes :: "js_object list"

text \<open>
  The private constructor and the two static functions that call it; \<open>None\<close> is an
  omitted \<^verbatim>\<open>options\<close> argument. The first argument is the runtime's conversion of
  numbers to strings, which \<^verbatim>\<open>join\<close> applies to the directions.
\<close>

definition CreateIndexesOperation_new ::
  "(rat \<Rightarrow> string) \<Rightarrow> string \<Rightarrow> js_object list \<Rightarrow> js_object option
     \<Rightarrow> error + CreateIndexesOperation" where
  "CreateIndexesOperation_new numberToString collName userIndexes opts =
     (case map_result (resolve_user_index numberToString) userIndexes of
        Inl e \<Rightarrow> Inl e
      | Inr resolved \<Rightarrow>
          Inr \<lparr> options = (case opts of None \<Rightarrow> [] | Some os \<Rightarrow> os),
                collectionName = collName,
                indexes = resolved \<rparr>)"

definition fromIndexDescriptionArray ::
  "(rat \<Rightarrow> string) \<Rightarrow> string \<Rightarrow> js_object list \<Rightarrow> js_object option
     \<Rightarrow> error + CreateIndexesOperation" where
  "fromIndexDescriptionArray numberToString collName userIndexes opts =
     CreateIndexesOperation_new numberToString collName userIndexes opts"

definition fromIndexSpecification ::
  "(rat \<Rightarrow> string) \<Rightarrow> string \<Rightarrow> jsval \<Rightarrow> js_object option
     \<Rightarrow> error + CreateIndexesOperation" where
  "fromIndexSpecification numberToString collName indexSpec opts =
     (let os = (case opts of None \<Rightarrow> [] | Some os \<Rightarrow> os);
          key = constructIndexDescriptionMap indexSpec;
          description = set_entry ''key'' (JMap key) os
      in CreateIndexesOperation_new numberToString collName [description] (Some os))"

text \<open>
  What \<^verbatim>\<open>execute\<close> needs from outside the sources: \<^verbatim>\<open>maxWireVersion\<close> of
  \<^verbatim>\<open>../utils\<close> and \<^verbatim>\<open>executeCommand\<close> of the superclass, which sends a command
  document to a server and returns the server's reply or throws. Both are parameters.
  Every call of \<^verbatim>\<open>executeCommand\<close> is recorded in a trace of the commands sent,
  with the server they went to. The session and the timeout context are handed
  through unchanged and left out.
\<close>

record 'srv runtime =
  maxWireVersion :: "'srv \<Rightarrow> int"
  executeCommand :: "'srv \<Rightarrow> jsval \<Rightarrow> error + jsval"

type_synonym 'srv trace = "('srv \<times> jsval) list"

definition CreateIndexesOperation_execute ::
  "'srv runtime \<Rightarrow> 'srv \<Rightarrow> CreateIndexesOperation \<Rightarrow> 'srv trace
     \<Rightarrow> (error + jsval list) \<times> CreateIndexesOperation \<times> 'srv trace" where
  "CreateIndexesOperation_execute rt server this sent =
     (let serverWireVersion = maxWireVersion rt server;
          cmd = [(''createIndexes'', JStr (collectionName this)),
                 (''indexes'', JArr (map JObj (indexes this)))];
          commitQuorum = get_prop (options this) ''commitQuorum''
      in if \<not> nullish commitQuorum \<and> serverWireVersion < 9
         then (Inl (MongoCompatibilityError
                 ''Option `commitQuorum` for `createIndexes` not supported on servers < 4.4''),
               this, sent)
         else
           (let cmd' = (if \<not> nullish commitQuorum
                        then set_entry ''commitQuorum'' commitQuorum cmd else cmd);
                this' = this\<lparr> options := set_entry ''collation'' JUndefined (options this) \<rparr>;
                sent' = sent @ [(server, JObj cmd')]
            in case executeCommand rt server (JObj cmd') of
                 Inl e \<Rightarrow> (Inl e, this', sent')
               | Inr reply \<Rightarrow>
                   (Inr (map (\<lambda>index. js_or (get_prop index ''name'') (JStr [])) (indexes this)),
                    this', sent')))"

record MongoDBNamespace =
  db :: string
  collection :: string

text \<open>
  Of the class \<^verbatim>\<open>Collection\<close> the sources read \<^verbatim>\<open>collectionName\<close> and
  \<^verbatim>\<open>s.namespace\<close>; the latter is the field \<open>s_namespace\<close>.
\<close>

record Collection =
  collectionName :: string
  s_namespace :: MongoDBNamespace

record DropIndexOperation = CommandOperation +
  collection :: Collection
  indexName :: string

definition DropIndexOperation_new ::
  "Collection \<Rightarrow> string \<Rightarrow> js_object option \<Rightarrow> DropIndexOperation" where
  "DropIndexOperation_new coll name opts =
     \<lparr> options = (case opts of None \<Rightarrow> [] | Some os \<Rightarrow> os),
       collection = coll,
       indexName = name \<rparr>"

definition DropIndexOperation_execute ::
  "'srv runtime \<Rightarrow> 'srv \<Rightarrow> DropIndexOperation \<Rightarrow> 'srv trace
     \<Rightarrow> (error + jsval) \<times> DropIndexOperation \<times> 'srv trace" where
  "DropIndexOperation_execute rt server this sent =
     (let cmd = [(''dropIndexes'',
                    JStr (Collection.collectionName (DropIndexOperation.collection this))),
                 (''index'', JStr (indexName this))]
      in (executeCommand rt server (JObj cmd), this, sent @ [(server, JObj cmd)]))"

record ListIndexesOperation = CommandOperation +
  collectionNamespace :: MongoDBNamespace

text \<open>The options are copied and \<^verbatim>\<open>writeConcern\<close> is deleted from the copy.\<close>

definition ListIndexesOperation_new ::
  "Collection \<Rightarrow> js_object option \<Rightarrow> ListIndexesOperation" where
  "ListIndexesOperation_new coll opts =
     \<lparr> options = delete_prop ''writeConcern'' (case opts of None \<Rightarrow> [] | Some os \<Rightarrow> os),
       collectionNamespace = s_namespace coll \<rparr>"

definition ListIndexesOperation_execute ::
  "'srv runtime \<Rightarrow> 'srv \<Rightarrow> ListIndexesOperation \<Rightarrow> 'srv trace
     \<Rightarrow> (error + jsval) \<times> ListIndexesOperation \<times> 'srv trace" where
  "ListIndexesOperation_execute rt server this sent =
     (let serverWireVersion = maxWireVersion rt server;
          cursor = (if truthy (get_prop (options this) ''batchSize'')
                    then [(''batchSize'', get_prop (options this) ''batchSize'')] else []);
          command = [(''listIndexes'',
                        JStr (MongoDBNamespace.collection (collectionNamespace this))),
                     (''cursor'', JObj cursor)];
          command' = (if serverWireVersion \<ge> 9 \<and> get_prop (options this) ''comment'' \<noteq> JUndefined
                      then set_entry ''comment'' (get_prop (options this) ''comment'') command
                      else command)
      in (executeCommand rt server (JObj command'), this, sent @ [(server, JObj command')]))"

section \<open>Raw-command cursor\<close>

text \<open>
  Lines 63 to 200 of the source file: the class \<^verbatim>\<open>RunCommandCursor\<close>, its methods
  and what they work on.
\<close>

text \<open>
  Modelled from the spec: the states of a cursor, "\<open>UNINITIALIZED \<rightarrow> INITIALIZING \<rightarrow>
  OPEN \<rightarrow> {OPEN, EXHAUSTED} \<rightarrow> CLOSED\<close>", and the response to a cursor-creating
  operation or to a \<^verbatim>\<open>getMore\<close>, of which the specification uses the cursor id and
  the batch of documents. The class \<^verbatim>\<open>CursorResponse\<close> is not among the sources. Its
  field \<^verbatim>\<open>id\<close> is named \<open>response_id\<close>, since \<open>id\<close> is the identity function.
\<close>

datatype cursor_state = UNINITIALIZED | INITIALIZING | OPEN | EXHAUSTED | CLOSED

record CursorResponse =
  response_id :: int
  batch :: "jsval list"

text \<open>
  The operations a cursor hands to \<^verbatim>\<open>executeOperation\<close>. The classes are not among
  the sources; an operation is the list of the arguments of its constructor call in
  the source: \<^verbatim>\<open>new RunCommandOperation(db, command, options)\<close>,
  \<^verbatim>\<open>new GetMoreOperation(namespace, id, server, options)\<close>. The third operation is
  the kill-cursor notification that the specification's close transition sends, with
  the namespace, the cursor id and the server.
\<close>

datatype 'srv operation =
    RunCommandOperation MongoDBNamespace js_object js_object
  | GetMoreOperation MongoDBNamespace "int option" "'srv option" js_object
  | KillCursorsOperation MongoDBNamespace "int option" "'srv option"

text \<open>
  \<^verbatim>\<open>executeOperation\<close> of \<^verbatim>\<open>../operations/execute_operation\<close> is a parameter. It
  is given the operations issued so far with their outcomes, so that it may answer
  the same operation differently at different times, and returns the value of
  \<^verbatim>\<open>operation.server\<close> after the call together with the response or the error
  thrown. Every call is recorded in the history.
\<close>

type_synonym 'srv outcome = "'srv option \<times> (error + CursorResponse)"
type_synonym 'srv history = "('srv operation \<times> 'srv outcome) list"

record 'srv cursor_runtime =
  executeOperation :: "'srv history \<Rightarrow> 'srv operation \<Rightarrow> 'srv outcome"

text \<open>
  Modelled from the spec: the class \<^verbatim>\<open>AbstractCursor\<close> of \<^verbatim>\<open>./abstract_cursor\<close>,
  which \<^verbatim>\<open>RunCommandCursor\<close> extends, is not among the sources. Its fields are those
  of the specification's data model of a cursor (\<open>id\<close>, \<open>namespace\<close>, \<open>buffer\<close>,
  \<open>server\<close>, \<open>session\<close>, state), together with the \<^verbatim>\<open>cursorOptions\<close> that the
  source reads. The field \<^verbatim>\<open>id\<close> is named \<open>cursor_id\<close>.
\<close>

record 'srv AbstractCursor =
  cursor_id :: "int option"
  namespace :: MongoDBNamespace
  buffer :: "jsval list"
  server :: "'srv option"
  session :: jsval
  state :: cursor_state
  cursorOptions :: js_object

record 'srv RunCommandCursor = "'srv AbstractCursor" +
  command :: js_object
  getMoreOptions :: js_object
  db :: MongoDBNamespace

text \<open>
  The outcome of a method call: the value returned or the error thrown, the cursor
  after the call and the history after the call.
\<close>

type_synonym ('srv, 'a) call_result =
  "(error + 'a) \<times> 'srv RunCommandCursor \<times> 'srv history"

definition setComment ::
  "jsval \<Rightarrow> 'srv RunCommandCursor \<Rightarrow> 'srv history \<Rightarrow> ('srv, unit) call_result" where
  "setComment comment this hist =
     (Inr (), this\<lparr> getMoreOptions := set_entry ''comment'' comment (getMoreOptions this) \<rparr>, hist)"

definition setMaxTimeMS ::
  "rat \<Rightarrow> 'srv RunCommandCursor \<Rightarrow> 'srv history \<Rightarrow> ('srv, unit) call_result" where
  "setMaxTimeMS maxTimeMS this hist =
     (Inr (),
      this\<lparr> getMoreOptions := set_entry ''maxAwaitTimeMS'' (JNum maxTimeMS) (getMoreOptions this) \<rparr>,
      hist)"

definition setBatchSize ::
  "rat \<Rightarrow> 'srv RunCommandCursor \<Rightarrow> 'srv history \<Rightarrow> ('srv, unit) call_result" where
  "setBatchSize batchSize this hist =
     (Inr (),
      this\<lparr> getMoreOptions := set_entry ''batchSize'' (JNum batchSize) (getMoreOptions this) \<rparr>,
      hist)"

definition clone ::
  "'srv RunCommandCursor \<Rightarrow> 'srv history \<Rightarrow> ('srv, 'srv RunCommandCursor) call_result" where
  "clone this hist =
     (Inl (MongoAPIError ''Clone not supported, create a new cursor with db.runCursorCommand''),
      this, hist)"

definition withReadConcern ::
  "jsval \<Rightarrow> 'srv RunCommandCursor \<Rightarrow> 'srv history \<Rightarrow> ('srv, unit) call_result" where
  "withReadConcern readConcern this hist =
     (Inl (MongoAPIError
        ''RunCommandCursor does not support readConcern it must be attached to the command being run''),
      this, hist)"

definition addCursorFlag ::
  "string \<Rightarrow> bool \<Rightarrow> 'srv RunCommandCursor \<Rightarrow> 'srv history \<Rightarrow> ('srv, unit) call_result" where
  "addCursorFlag flag flagValue this hist =
     (Inl (MongoAPIError
        ''RunCommandCursor does not support cursor flags, they must be attached to the command being run''),
      this, hist)"

definition maxTimeMS ::
  "rat \<Rightarrow> 'srv RunCommandCursor \<Rightarrow> 'srv history \<Rightarrow> ('srv, unit) call_result" where
  "maxTimeMS ms this hist =
     (Inl (MongoAPIError
        ''maxTimeMS must be configured on the command document directly, to configure getMore.maxTimeMS use cursor.setMaxTimeMS()''),
      this, hist)"

definition batchSize ::
  "rat \<Rightarrow> 'srv RunCommandCursor \<Rightarrow> 'srv history \<Rightarrow> ('srv, unit) call_result" where
  "batchSize n this hist =
     (Inl (MongoAPIError
        ''batchSize must be configured on the command document directly, to configure getMore.batchSize use cursor.setBatchSize()''),
      this, hist)"

text \<open>
  Modelled from the spec: the initial values of the inherited fields, which the
  constructor of \<^verbatim>\<open>AbstractCursor\<close> sets and which is not among the sources: a new
  cursor is in the state \<open>UNINITIALIZED\<close>, has no id and no server yet, and an empty
  buffer; its session and its cursor options come from the options given. The rest
  is the constructor of the source: the database is kept and the command is copied.
  The database is represented by its namespace, which is what \<^verbatim>\<open>ns(db.namespace)\<close>
  yields.
\<close>

definition RunCommandCursor_new ::
  "MongoDBNamespace \<Rightarrow> js_object \<Rightarrow> js_object \<Rightarrow> 'srv RunCommandCursor" where
  "RunCommandCursor_new database cmd opts =
     \<lparr> cursor_id = None,
       namespace = database,
       buffer = [],
       server = None,
       session = get_prop opts ''session'',
       state = UNINITIALIZED,
       cursorOptions = opts,
       command = from_entries cmd,
       getMoreOptions = [],
       db = database \<rparr>"

text \<open>The value \<^verbatim>\<open>_initialize\<close> returns: \<^verbatim>\<open>{ server, session, response }\<close>.\<close>

datatype 'srv InitialCursorResponse =
  InitialCursorResponse "'srv option" jsval CursorResponse

text \<open>
  \<^verbatim>\<open>_initialize(session)\<close>. The option \<^verbatim>\<open>responseType\<close> is the class
  \<^verbatim>\<open>CursorResponse\<close>, written as its name.
\<close>

definition initialize ::
  "'srv cursor_runtime \<Rightarrow> jsval \<Rightarrow> 'srv RunCommandCursor \<Rightarrow> 'srv history
     \<Rightarrow> ('srv, 'srv InitialCursorResponse) call_result" where
  "initialize rt sess this hist =
     (let opts = set_entry ''responseType'' (JStr ''CursorResponse'')
                  (set_entry ''omitMaxTimeMS''
                     (get_prop (cursorOptions this) ''omitMaxTimeMSOnInitialCommand'')
                     (set_entry ''readPreference'' (get_prop (cursorOptions this) ''readPreference'')
                        (set_entry ''session'' sess (cursorOptions this))));
          operation = RunCommandOperation (db this) (command this) opts;
          (operation_server, result) = executeOperation rt hist operation;
          hist' = hist @ [(operation, (operation_server, result))]
      in case result of
           Inl e \<Rightarrow> (Inl e, this, hist')
         | Inr response \<Rightarrow>
             (Inr (InitialCursorResponse operation_server sess response), this, hist'))"

text \<open>\<^verbatim>\<open>getMore(_batchSize)\<close>; the argument is not used.\<close>

definition getMore ::
  "'srv cursor_runtime \<Rightarrow> rat \<Rightarrow> 'srv RunCommandCursor \<Rightarrow> 'srv history
     \<Rightarrow> ('srv, CursorResponse) call_result" where
  "getMore rt unused_batchSize this hist =
     (let opts = set_entry ''omitMaxTimeMS''
                  (get_prop (cursorOptions this) ''omitMaxTimeMSOnGetMore'')
                  (set_entries (set_entry ''session'' (session this) (cursorOptions this))
                     (getMoreOptions this));
          getMoreOperation = GetMoreOperation (namespace this) (cursor_id this) (server this) opts;
          (operation_server, result) = executeOperation rt hist getMoreOperation
      in (result, this, hist @ [(getMoreOperation, (operation_server, result))]))"

section \<open>The cursor protocol\<close>

text \<open>
  Modelled from the spec: the class \<^verbatim>\<open>AbstractCursor\<close>, which drives
  \<^verbatim>\<open>_initialize\<close> and \<^verbatim>\<open>getMore\<close> and owns the cursor's state, is not among the
  sources. The transitions below are those of the specification's cursor protocol
  state machine, one definition per transition; \<^verbatim>\<open>_initialize\<close> and
  \<^verbatim>\<open>getMore\<close> inside them are the functions of the source.
\<close>

text \<open>
  Modelled from the spec: "If the server reports no further results (\<open>id == 0\<close> or
  batch smaller than requested with no tailable flag), state becomes \<open>EXHAUSTED\<close>
  directly." The batch size requested and the tailable flag are read from the cursor
  options.
\<close>

definition no_further_results :: "'srv RunCommandCursor \<Rightarrow> CursorResponse \<Rightarrow> bool" where
  "no_further_results this response =
     (response_id response = 0 \<or>
      (case get_prop (cursorOptions this) ''batchSize'' of
         JNum requested \<Rightarrow>
           of_nat (length (batch response)) < requested \<and>
           \<not> truthy (get_prop (cursorOptions this) ''tailable'')
       | _ \<Rightarrow> False))"

text \<open>
  Modelled from the spec: "\<open>UNINITIALIZED \<rightarrow> INITIALIZING \<rightarrow> OPEN/EXHAUSTED\<close>: the first
  call to produce the next item triggers \<open>_initialize(session)\<close>, which runs the
  cursor-creating operation through the execution engine and seeds \<open>buffer\<close>, \<open>id\<close>
  and \<open>server\<close> from the response." An error closes the cursor.
\<close>

definition cursor_initialize ::
  "'srv cursor_runtime \<Rightarrow> 'srv RunCommandCursor \<Rightarrow> 'srv history
     \<Rightarrow> ('srv, unit) call_result" where
  "cursor_initialize rt this hist =
     (case initialize rt (session this) (this\<lparr> state := INITIALIZING \<rparr>) hist of
        (Inl e, this', hist') \<Rightarrow> (Inl e, this'\<lparr> state := CLOSED \<rparr>, hist')
      | (Inr (InitialCursorResponse srv sess response), this', hist') \<Rightarrow>
          (Inr (),
           this'\<lparr> server := srv,
                  session := sess,
                  cursor_id := Some (response_id response),
                  buffer := batch response,
                  state := (if no_further_results this' response then EXHAUSTED else OPEN) \<rparr>,
           hist'))"

text \<open>
  Modelled from the spec: "\<open>OPEN\<close>, buffer empty \<open>\<rightarrow>\<close> fetch: issues a \<open>getMore\<close>
  (tied to the cursor's bound \<open>server\<close> and \<open>id\<close>), appends returned documents to
  \<open>buffer\<close>, updates \<open>id\<close>; if the new \<open>id\<close> is \<open>0\<close>, transitions to
  \<open>EXHAUSTED\<close>." An error during the fetch closes the cursor.
\<close>

definition cursor_fetch ::
  "'srv cursor_runtime \<Rightarrow> 'srv RunCommandCursor \<Rightarrow> 'srv history
     \<Rightarrow> ('srv, unit) call_result" where
  "cursor_fetch rt this hist =
     (case getMore rt 0 this hist of
        (Inl e, this', hist') \<Rightarrow> (Inl e, this'\<lparr> state := CLOSED \<rparr>, hist')
      | (Inr response, this', hist') \<Rightarrow>
          (Inr (),
           this'\<lparr> buffer := buffer this' @ batch response,
                  cursor_id := Some (response_id response),
                  state := (if response_id response = 0 then EXHAUSTED else OPEN) \<rparr>,
           hist'))"

text \<open>
  Modelled from the spec: "Close: from any non-\<open>CLOSED\<close> state, if \<open>id\<close> is
  non-zero, send a best-effort kill-cursor notification (errors swallowed) and
  transition to \<open>CLOSED\<close>. Re-entrant close is a no-op." An absent id counts as zero.
\<close>

definition cursor_close ::
  "'srv cursor_runtime \<Rightarrow> 'srv RunCommandCursor \<Rightarrow> 'srv history
     \<Rightarrow> ('srv, unit) call_result" where
  "cursor_close rt this hist =
     (if state this = CLOSED then (Inr (), this, hist)
      else if cursor_id this = None \<or> cursor_id this = Some 0
      then (Inr (), this\<lparr> state := CLOSED \<rparr>, hist)
      else
        (let kill = KillCursorsOperation (namespace this) (cursor_id this) (server this)
         in (Inr (), this\<lparr> state := CLOSED \<rparr>, hist @ [(kill, executeOperation rt hist kill)])))"

text \<open>
  Modelled from the spec: the events of a cursor's life, which are the transitions of
  the specification's protocol and the calls of the public methods of the source. A
  transition whose condition does not hold leaves everything as it is. Consuming
  takes the first document of the buffer; with an empty buffer in state
  \<open>EXHAUSTED\<close> the iteration ends and the cursor is closed.
\<close>

datatype event =
    Initialize
  | Fetch
  | Consume
  | Close
  | SetComment jsval
  | SetMaxTimeMS rat
  | SetBatchSize rat
  | Clone
  | WithReadConcern jsval
  | AddCursorFlag string bool
  | MaxTimeMS rat
  | BatchSize rat

type_synonym 'srv config = "'srv RunCommandCursor \<times> 'srv history"

definition after :: "('srv, 'a) call_result \<Rightarrow> 'srv config" where
  "after r = snd r"

fun cursor_step :: "'srv cursor_runtime \<Rightarrow> 'srv config \<Rightarrow> event \<Rightarrow> 'srv config" where
  "cursor_step rt (this, hist) Initialize =
     (if state this = UNINITIALIZED then after (cursor_initialize rt this hist) else (this, hist))"
| "cursor_step rt (this, hist) Fetch =
     (if state this = OPEN \<and> buffer this = [] then after (cursor_fetch rt this hist)
      else (this, hist))"
| "cursor_step rt (this, hist) Consume =
     (if buffer this \<noteq> [] then (this\<lparr> buffer := tl (buffer this) \<rparr>, hist)
      else if state this = EXHAUSTED then (this\<lparr> state := CLOSED \<rparr>, hist)
      else (this, hist))"
| "cursor_step rt (this, hist) Close = after (cursor_close rt this hist)"
| "cursor_step rt (this, hist) (SetComment c) = after (setComment c this hist)"
| "cursor_step rt (this, hist) (SetMaxTimeMS ms) = after (setMaxTimeMS ms this hist)"
| "cursor_step rt (this, hist) (SetBatchSize n) = after (setBatchSize n this hist)"
| "cursor_step rt (this, hist) Clone = after (clone this hist)"
| "cursor_step rt (this, hist) (WithReadConcern rc) = after (withReadConcern rc this hist)"
| "cursor_step rt (this, hist) (AddCursorFlag f v) = after (addCursorFlag f v this hist)"
| "cursor_step rt (this, hist) (MaxTimeMS ms) = after (maxTimeMS ms this hist)"
| "cursor_step rt (this, hist) (BatchSize n) = after (batchSize n this hist)"

definition run :: "'srv cursor_runtime \<Rightarrow> event list \<Rightarrow> 'srv config \<Rightarrow> 'srv config" where
  "run rt events start = foldl (cursor_step rt) start events"

text \<open>
  What a history says about the server binding and the cursor id: the server of the
  first \<^verbatim>\<open>RunCommandOperation\<close> that succeeded, and the id of the last response
  to a \<^verbatim>\<open>RunCommandOperation\<close> or a \<^verbatim>\<open>GetMoreOperation\<close>.
\<close>

fun bound_server :: "'srv history \<Rightarrow> 'srv option" where
  "bound_server [] = None"
| "bound_server ((RunCommandOperation d c os, (srv, Inr response)) # hist) = srv"
| "bound_server (e # hist) = bound_server hist"

fun reported_id :: "'srv operation \<times> 'srv outcome \<Rightarrow> int option" where
  "reported_id (RunCommandOperation d c os, (srv, Inr response)) = Some (response_id response)"
| "reported_id (GetMoreOperation n i s os, (srv, Inr response)) = Some (response_id response)"
| "reported_id _ = None"

fun last_reported_id :: "'srv history \<Rightarrow> int option" where
  "last_reported_id [] = None"
| "last_reported_id (e # hist) =
     (case last_reported_id hist of
        Some i \<Rightarrow> Some i
      | None \<Rightarrow> reported_id e)"

text \<open>The cursor id and the server of each \<^verbatim>\<open>GetMoreOperation\<close> of a history.\<close>

fun get_more_targets :: "'srv history \<Rightarrow> (int option \<times> 'srv option) list" where
  "get_more_targets [] = []"
| "get_more_targets ((GetMoreOperation n i s os, out) # hist) = (i, s) # get_more_targets hist"
| "get_more_targets (e # hist) = get_more_targets hist"

text \<open>
  Every \<^verbatim>\<open>GetMoreOperation\<close> of a history went to the server bound by the initial
  command, with the cursor id of the last response before it.
\<close>

definition get_mores_follow :: "'srv history \<Rightarrow> bool" where
  "get_mores_follow hist =
     (\<forall>n < length hist. \<forall>ns cid srv os out.
        hist ! n = (GetMoreOperation ns cid srv os, out) \<longrightarrow>
          srv = bound_server hist \<and> cid = last_reported_id (take n hist))"

text \<open>
  What holds of a cursor and its history at every moment of a cursor's life. Before
  the initialization nothing was issued and nothing is bound. After it the server of
  the cursor is the one bound by the initial command, and the id of the cursor is the
  one of the last response.
\<close>

definition cursor_invariant :: "'srv config \<Rightarrow> bool" where
  "cursor_invariant cfg =
     (case cfg of (this, hist) \<Rightarrow>
        (state this = UNINITIALIZED \<longrightarrow>
           hist = [] \<and> server this = None \<and> cursor_id this = None) \<and>
        (state this \<noteq> UNINITIALIZED \<longrightarrow>
           server this = bound_server hist \<and> cursor_id this = last_reported_id hist) \<and>
        get_mores_follow hist)"

text \<open>
  The cursor id captured at the initialization: the id of the response to the first
  \<^verbatim>\<open>RunCommandOperation\<close> that succeeded.
\<close>

fun captured_id :: "'srv history \<Rightarrow> int option" where
  "captured_id [] = None"
| "captured_id ((RunCommandOperation d c os, (srv, Inr response)) # hist) =
     Some (response_id response)"
| "captured_id (e # hist) = captured_id hist"

text \<open>
  Modelled from the spec: a server that keeps to the cursor protocol. The id of a
  cursor is a "server-assigned handle" of which the "value \<open>0\<close> or absent means
  exhausted, no further fetch needed": the response to a \<^verbatim>\<open>getMore\<close> carries
  the id that the \<^verbatim>\<open>getMore\<close> asked for, or 0.
\<close>

definition conforming :: "'srv cursor_runtime \<Rightarrow> bool" where
  "conforming rt =
     (\<forall>hist ns cid srv os s response.
        executeOperation rt hist (GetMoreOperation ns cid srv os) = (s, Inr response) \<longrightarrow>
          Some (response_id response) = cid \<or> response_id response = 0)"

text \<open>
  What holds in addition when the server keeps to the protocol: while the cursor is
  open the id last reported is the id captured at the initialization, and every
  \<^verbatim>\<open>GetMoreOperation\<close> issued carried that id.
\<close>

definition get_mores_captured :: "'srv history \<Rightarrow> bool" where
  "get_mores_captured hist =
     (\<forall>n < length hist. \<forall>ns cid srv os out.
        hist ! n = (GetMoreOperation ns cid srv os, out) \<longrightarrow>
          cid = captured_id hist \<and> cid \<noteq> None)"

definition captured_invariant :: "'srv config \<Rightarrow> bool" where
  "captured_invariant cfg =
     (case cfg of (this, hist) \<Rightarrow>
        (state this = OPEN \<longrightarrow>
           last_reported_id hist = captured_id hist \<and> captured_id hist \<noteq> None) \<and>
        get_mores_captured hist)"

text \<open>
  A server for the examples: it binds server 1 and answers the initial command with
  the cursor id 7, the first \<^verbatim>\<open>getMore\<close> with the id asked for and everything
  later with the id 0, each time with the batch given.
\<close>

definition example_runtime :: "jsval list \<Rightarrow> nat cursor_runtime" where
  "example_runtime docs =
     \<lparr> executeOperation =
         (\<lambda>hist operation.
            (Some 1,
             Inr \<lparr> response_id =
                     (case operation of
                        RunCommandOperation d c os \<Rightarrow> 7
                      | GetMoreOperation n i s os \<Rightarrow>
                          (if length hist < 2 then (case i of Some j \<Rightarrow> j | None \<Rightarrow> 0) else 0)
                      | KillCursorsOperation n i s \<Rightarrow> 0),
                   batch = docs \<rparr>)) \<rparr>"

definition example_cursor :: "nat RunCommandCursor" where
  "example_cursor =
     RunCommandCursor_new \<lparr> MongoDBNamespace.db = ''d'', MongoDBNamespace.collection = ''c'' \<rparr>
       [(''aggregate'', JStr ''c''), (''cursor'', JObj [])] []"

section \<open>Operation aspects\<close>

text \<open>
  Modelled from the spec: \<^verbatim>\<open>defineAspects\<close> and the enumeration \<^verbatim>\<open>Aspect\<close> come
  from \<^verbatim>\<open>./operation\<close>, which is not among the sources; the source (lines 612 to
  618) declares the aspects of the three operation classes by calls of
  \<^verbatim>\<open>defineAspects\<close>. The specification
  describes the aspects of an operation as a "set of flags from \<open>{READ, WRITE,
  RETRYABLE, CURSOR_CREATING, MUST_USE_SAME_SERVER, SKIP_COLLATION}\<close>", "an explicit
  tagged set attached to" the operation, "with the execution engine branching on flag
  membership". A call of \<^verbatim>\<open>defineAspects\<close> attaches the set of the listed flags to
  the class.
\<close>

datatype Aspect =
    READ_OPERATION
  | WRITE_OPERATION
  | RETRYABLE
  | CURSOR_CREATING
  | MUST_USE_SAME_SERVER
  | SKIP_COLLATION

datatype operation_class = ListIndexes | CreateIndexes | DropIndex

type_synonym aspect_table = "operation_class \<Rightarrow> Aspect set"

definition defineAspects :: "operation_class \<Rightarrow> Aspect list \<Rightarrow> aspect_table \<Rightarrow> aspect_table" where
  "defineAspects operation aspects table = table(operation := set aspects)"

text \<open>The three calls of the source, in its order, on a table without declarations.\<close>

definition declared_aspects :: aspect_table where
  "declared_aspects =
     defineAspects DropIndex [WRITE_OPERATION]
       (defineAspects CreateIndexes [WRITE_OPERATION]
          (defineAspects ListIndexes [READ_OPERATION, RETRYABLE, CURSOR_CREATING]
             (\<lambda>operation. {})))"

definition hasAspect :: "operation_class \<Rightarrow> Aspect \<Rightarrow> bool" where
  "hasAspect operation aspect = (aspect \<in> declared_aspects operation)"

text \<open>
  Modelled from the spec: the retry rule of the execution engine, which is not among
  the sources. "Retryable (transient network error, or a server error flagged
  retryable by the server, restricted to the \<open>RETRYABLE\<close> aspect and only for the
  first retry) [...] Retries for \<open>WRITE\<close> operations are only permitted when the
  session/deployment supports retryable writes; for \<open>READ\<close> operations they require
  no such support." "Timeout: [...] never retried even if \<open>RETRYABLE\<close>."
\<close>

datatype failure_class = Transient | NonRetryable | Timeout

definition retry_permitted :: "operation_class \<Rightarrow> failure_class \<Rightarrow> nat \<Rightarrow> bool \<Rightarrow> bool" where
  "retry_permitted operation failure retries_so_far supportsRetryableWrites =
     (hasAspect operation RETRYABLE \<and>
      failure = Transient \<and>
      retries_so_far = 0 \<and>
      (if hasAspect operation WRITE_OPERATION then supportsRetryableWrites else True))"

section \<open>Notions of the specification\<close>

text \<open>
  The fields of an index key as the caller gave them, in the caller's order: the
  entries of a \<^verbatim>\<open>Map\<close>, or the properties of a plain object.
\<close>

fun caller_key_fields :: "jsval \<Rightarrow> js_map" where
  "caller_key_fields (JMap m) = m"
| "caller_key_fields (JObj fs) = map (\<lambda>(f, d). (JStr f, d)) fs"
| "caller_key_fields _ = []"

text \<open>
  The fields that an index specification names, in the caller's order. A
  specification is one item or an array of items. An item is a field name, which
  stands for the field in direction 1; or a pair of a field name and a direction,
  written as an array, whose direction is 1 when it is left out; or a \<^verbatim>\<open>Map\<close> or a
  plain object of fields with their directions. An array of two elements whose second
  is a number or one of the words \<^verbatim>\<open>2d\<close>, \<^verbatim>\<open>2dsphere\<close>, \<^verbatim>\<open>text\<close> and
  \<^verbatim>\<open>geoHaystack\<close> is one pair; every other array is an array of items.
\<close>

fun item_fields :: "jsval \<Rightarrow> js_map" where
  "item_fields (JStr f) = [(JStr f, JNum 1)]"
| "item_fields (JArr [])  = [(JUndefined, JNum 1)]"
| "item_fields (JArr [f]) = [(f, JNum 1)]"
| "item_fields (JArr (f # d # rest)) = [(f, if d = JUndefined \<or> d = JNull then JNum 1 else d)]"
| "item_fields (JMap m) = m"
| "item_fields (JObj fs) = map (\<lambda>(f, d). (JStr f, d)) fs"
| "item_fields _ = []"

fun direction_word :: "jsval \<Rightarrow> bool" where
  "direction_word (JNum n) = True"
| "direction_word (JStr w) = (w \<in> set [''2d'', ''2dsphere'', ''text'', ''geoHaystack''])"
| "direction_word _ = False"

fun specified_fields :: "jsval \<Rightarrow> js_map" where
  "specified_fields (JArr [f, d]) =
     (if direction_word d then item_fields (JArr [f, d])
      else item_fields f @ item_fields d)"
| "specified_fields (JArr items) = concat (map item_fields items)"
| "specified_fields item = item_fields item"

text \<open>
  An index key of the declared type: a \<^verbatim>\<open>Map\<close> or a plain object. The keys of
  either are pairwise distinct.
\<close>

fun index_key_well_formed :: "jsval \<Rightarrow> bool" where
  "index_key_well_formed (JMap m) = distinct (map fst m)"
| "index_key_well_formed (JObj fs) = distinct (map fst fs)"
| "index_key_well_formed _ = False"

text \<open>
  "Field names and directions joined by underscores": each field contributes its name
  and its direction, in the order of the fields.
\<close>

definition underscore_name :: "(rat \<Rightarrow> string) \<Rightarrow> js_map \<Rightarrow> string" where
  "underscore_name numberToString m =
     join_strings ''_''
       (concat (map (\<lambda>(f, d). [if nullish f then [] else to_string numberToString f,
                                 if nullish d then [] else to_string numberToString d]) m))"

text \<open>
  A name of the declared type \<^verbatim>\<open>name?: string\<close>: a string, or none (absent,
  \<^verbatim>\<open>undefined\<close> or \<^verbatim>\<open>null\<close>).
\<close>

fun index_name_well_formed :: "jsval \<Rightarrow> bool" where
  "index_name_well_formed JUndefined = True"
| "index_name_well_formed JNull = True"
| "index_name_well_formed (JStr s) = True"
| "index_name_well_formed _ = False"

text \<open>
  The name an index is to be known by: the caller's, or else the default derived from
  the key.
\<close>

definition expected_index_name :: "(rat \<Rightarrow> string) \<Rightarrow> js_object \<Rightarrow> jsval" where
  "expected_index_name numberToString userIndex =
     (if nullish (get_prop userIndex ''name'')
      then JStr (underscore_name numberToString (caller_key_fields (get_prop userIndex ''key'')))
      else get_prop userIndex ''name'')"

section \<open>Properties\<close>

subsection \<open>Objects and maps\<close>

lemma set_entry_fresh: "k \<notin> fst ` set es \<Longrightarrow> set_entry k v es = es @ [(k, v)]"
  by (induction es) auto

lemma set_entries_fresh:
  "distinct (map fst es) \<Longrightarrow> fst ` set es \<inter> fst ` set acc = {} \<Longrightarrow> set_entries acc es = acc @ es"
proof (induction es arbitrary: acc)
  case Nil
  then show ?case by (simp add: set_entries_def)
next
  case (Cons e es)
  obtain k v where e: "e = (k, v)" by (cases e)
  from Cons.prems have fresh: "k \<notin> fst ` set acc" by (auto simp: e)
  have step: "set_entries acc (e # es) = set_entries (acc @ [(k, v)]) es"
    by (simp add: set_entries_def e set_entry_fresh [OF fresh])
  from Cons.prems have "distinct (map fst es)" and "fst ` set es \<inter> fst ` set (acc @ [(k, v)]) = {}"
    by (auto simp: e)
  then have "set_entries (acc @ [(k, v)]) es = (acc @ [(k, v)]) @ es"
    by (rule Cons.IH)
  with step show ?case by (simp add: e)
qed

lemma from_entries_distinct: "distinct (map fst es) \<Longrightarrow> from_entries es = es"
  using set_entries_fresh [of es "[]"] by (simp add: from_entries_def)

lemma get_prop_set_entry:
  "get_prop (set_entry k v es) k' = (if k' = k then v else get_prop es k')"
  by (induction es) (auto simp: get_prop_def)

lemma flat_array_from_map: "flat (array_from_map m) = concat (map (\<lambda>(k, v). [k, v]) m)"
  by (induction m) (auto simp: flat_def array_from_map_def)

lemma map_result_Inr:
  "map_result f xs = Inr ys \<longleftrightarrow>
     length ys = length xs \<and> (\<forall>i < length xs. f (xs ! i) = Inr (ys ! i))"
proof (induction xs arbitrary: ys)
  case Nil
  then show ?case by auto
next
  case (Cons x xs)
  show ?case
  proof (cases ys)
    case Nil
    then show ?thesis by (auto split: sum.splits)
  next
    case (Cons y ys')
    then show ?thesis
      using Cons.IH [of ys']
      by (auto split: sum.splits simp: nth_Cons' less_Suc_eq_0_disj)
  qed
qed

lemma map_result_total:
  "(\<And>x. x \<in> set xs \<Longrightarrow> \<exists>y. f x = Inr y) \<Longrightarrow> \<exists>ys. map_result f xs = Inr ys"
proof (induction xs)
  case Nil
  then show ?case by simp
next
  case (Cons x xs)
  then obtain y ys where "f x = Inr y" "map_result f xs = Inr ys" by (meson list.set_intros)
  then show ?case by simp
qed

lemma get_prop_Cons: "get_prop ((k', v) # es) k = (if k = k' then v else get_prop es k)"
  by (simp add: get_prop_def)

lemma set_entries_Cons: "set_entries acc ((k, v) # es) = set_entries (set_entry k v acc) es"
  by (simp add: set_entries_def)

lemma keys_set_entry:
  "map fst (set_entry k v es) = (if k \<in> set (map fst es) then map fst es else map fst es @ [k])"
proof (induction es)
  case Nil
  show ?case by simp
next
  case (Cons e es)
  obtain k' v' where e: "e = (k', v')" by (cases e)
  show ?case
  proof (cases "k' = k")
    case True
    then show ?thesis by (simp add: e)
  next
    case False
    with Cons.IH show ?thesis by (simp add: e)
  qed
qed

lemma distinct_set_entry: "distinct (map fst es) \<Longrightarrow> distinct (map fst (set_entry k v es))"
  by (simp add: keys_set_entry)

lemma key_in_set_entry: "k \<in> set (map fst (set_entry k v es))"
  by (simp add: keys_set_entry)

lemma get_prop_set_entries:
  "distinct (map fst es) \<Longrightarrow>
   get_prop (set_entries acc es) k =
     (if k \<in> set (map fst es) then get_prop es k else get_prop acc k)"
proof (induction es arbitrary: acc)
  case Nil
  then show ?case by (simp add: set_entries_def)
next
  case (Cons e es)
  obtain k' v where e: "e = (k', v)" by (cases e)
  from Cons.prems have d: "distinct (map fst es)" and fresh: "k' \<notin> set (map fst es)"
    by (simp_all add: e)
  have IH: "get_prop (set_entries (set_entry k' v acc) es) k =
              (if k \<in> set (map fst es) then get_prop es k else get_prop (set_entry k' v acc) k)"
    by (rule Cons.IH [OF d])
  show ?case
  proof (cases "k \<in> set (map fst es)")
    case True
    with fresh have "k \<noteq> k'" by auto
    with True IH show ?thesis by (simp add: e set_entries_Cons get_prop_Cons)
  next
    case False
    with IH show ?thesis by (simp add: e set_entries_Cons get_prop_Cons get_prop_set_entry)
  qed
qed

lemma distinct_set_entries:
  "distinct (map fst acc) \<Longrightarrow> distinct (map fst (set_entries acc es))"
proof (induction es arbitrary: acc)
  case Nil
  then show ?case by (simp add: set_entries_def)
next
  case (Cons e es)
  obtain k v where e: "e = (k, v)" by (cases e)
  from Cons.prems have "distinct (map fst (set_entry k v acc))"
    by (rule distinct_set_entry)
  then have "distinct (map fst (set_entries (set_entry k v acc) es))"
    by (rule Cons.IH)
  then show ?case by (simp add: e set_entries_Cons)
qed

lemma distinct_from_entries: "distinct (map fst (from_entries es))"
  unfolding from_entries_def by (rule distinct_set_entries) simp

lemma set_entries_append:
  "set_entries acc (xs @ ys) = set_entries (set_entries acc xs) ys"
  by (simp add: set_entries_def)

subsection \<open>Resolving an index description\<close>

lemma distinct_JStr_keys:
  "distinct (map fst (map (\<lambda>(p, v). (JStr p, v)) es)) = distinct (map fst es)"
proof -
  have "map fst (map (\<lambda>(p, v). (JStr p, v)) es) = map JStr (map fst es)"
    by (induction es) auto
  then show ?thesis by (simp add: distinct_map inj_on_def)
qed

lemma from_entries_JStr_keys:
  assumes "distinct (map fst es)"
  shows "from_entries (map (\<lambda>(p, v). (JStr p, v)) es) = map (\<lambda>(p, v). (JStr p, v)) es"
  by (rule from_entries_distinct) (simp only: distinct_JStr_keys assms)

lemma index_key_map_well_formed:
  "index_key_well_formed k \<Longrightarrow> index_key_map k = Inr (caller_key_fields k)"
  by (cases k) (simp_all add: index_key_map_def from_entries_distinct from_entries_JStr_keys)

lemma default_index_name_eq: "default_index_name numberToString m = underscore_name numberToString m"
  by (simp add: default_index_name_def underscore_name_def array_join_def
      flat_array_from_map map_concat comp_def case_prod_unfold)

lemma resolve_user_index_well_formed:
  assumes "index_key_well_formed (get_prop d ''key'')"
  shows "resolve_user_index numberToString d =
           Inr (set_entry ''key'' (JMap (caller_key_fields (get_prop d ''key'')))
                  (set_entry ''name''
                     (coalesce (get_prop d ''name'')
                        (JStr (underscore_name numberToString (caller_key_fields (get_prop d ''key'')))))
                     (resolveIndexDescription d)))"
  using assms
  by (simp add: resolve_user_index_def index_key_map_well_formed default_index_name_eq)

lemma caller_key_fields_distinct:
  "index_key_well_formed k \<Longrightarrow> distinct (map fst (caller_key_fields k))"
  by (cases k) (simp_all only: caller_key_fields.simps index_key_well_formed.simps distinct_JStr_keys)

subsection \<open>Reading an index specification\<close>

lemma isIndexDirection_word: "isIndexDirection d = direction_word d"
  by (cases d) simp_all

lemma index_spec_step_fields: "index_spec_step key item = set_entries key (item_fields item)"
proof (cases item)
  case (JArr t)
  show ?thesis
  proof (cases t)
    case Nil
    with JArr show ?thesis
      by (simp add: at_index_def coalesce_def set_entries_def)
  next
    case (Cons f t')
    show ?thesis
    proof (cases t')
      case Nil
      with JArr Cons show ?thesis
        by (simp add: at_index_def coalesce_def set_entries_def)
    next
      case (Cons d rest)
      with JArr \<open>t = f # t'\<close> show ?thesis
        by (cases d) (simp_all add: at_index_def coalesce_def set_entries_def)
    qed
  qed
qed (simp_all add: set_entries_def)

lemma foldl_index_spec_step:
  "foldl index_spec_step key items = set_entries key (concat (map item_fields items))"
proof (induction items arbitrary: key)
  case Nil
  show ?case by (simp add: set_entries_def)
next
  case (Cons item items)
  have "foldl index_spec_step key (item # items) =
          foldl index_spec_step (set_entries key (item_fields item)) items"
    by (simp add: index_spec_step_fields)
  also have "\<dots> = set_entries (set_entries key (item_fields item)) (concat (map item_fields items))"
    by (rule Cons.IH)
  also have "\<dots> = set_entries key (concat (map item_fields (item # items)))"
    by (simp add: set_entries_append)
  finally show ?case .
qed

lemma constructIndexDescriptionMap_fields:
  "constructIndexDescriptionMap indexSpec = from_entries (specified_fields indexSpec)"
proof (induction indexSpec rule: specified_fields.induct)
  case (1 f d)
  show ?case
  proof (cases "direction_word d")
    case True
    then have "constructIndexDescriptionMap (JArr [f, d]) =
                 foldl index_spec_step [] [JArr [f, d]]"
      by (simp add: constructIndexDescriptionMap_def at_index_def isIndexDirection_word)
    also have "\<dots> = set_entries [] (concat (map item_fields [JArr [f, d]]))"
      by (rule foldl_index_spec_step)
    finally show ?thesis
      using True by (simp add: from_entries_def)
  next
    case False
    then have "constructIndexDescriptionMap (JArr [f, d]) = foldl index_spec_step [] [f, d]"
      by (simp add: constructIndexDescriptionMap_def at_index_def isIndexDirection_word)
    also have "\<dots> = set_entries [] (concat (map item_fields [f, d]))"
      by (rule foldl_index_spec_step)
    finally show ?thesis
      using False by (simp add: from_entries_def)
  qed
qed (simp_all add: constructIndexDescriptionMap_def from_entries_def foldl_index_spec_step
       index_spec_step_fields)

subsection \<open>Default index name and key order\<close>

text \<open>
  C1. The key of an index in the command is a \<^verbatim>\<open>Map\<close> with the caller's fields in
  the caller's order, and the name of an index for which the caller gave none
  (absent, \<^verbatim>\<open>undefined\<close> or \<^verbatim>\<open>null\<close>) is the field names and directions of that
  key joined by underscores. This holds on both ways into the operation.

  For index descriptions whose keys are of the declared type (a plain object or a
  \<^verbatim>\<open>Map\<close>): the operation is created, it has one resolved index per description,
  in the same order, and each has the key and the name just said. The caller's order
  of the fields of a plain object is the order of its properties.

  For an index specification in any of its forms (a field name, a pair of field name
  and direction, a plain object, a \<^verbatim>\<open>Map\<close>, or an array of these) and options that
  carry no name: \<^verbatim>\<open>constructIndexDescriptionMap\<close> writes the fields that the
  specification names into a \<^verbatim>\<open>Map\<close>, one after the other; the operation is
  created with one index, which has that key and the name just said. When the
  specification names no field twice, the key is the list of its fields as they
  stand; a field named twice keeps its first place and takes its last direction.

  For the caller input \<^verbatim>\<open>{a: 1, b: -1}\<close> the witness below computes the key
  \<^verbatim>\<open>[["a",1],["b",-1]]\<close> and the name \<^verbatim>\<open>"a_1_b_-1"\<close> on both ways, and the command
  document that \<^verbatim>\<open>execute\<close> sends with them; and it computes the key and the name
  for a field name, a pair, an array of field names and a mixed array.
\<close>

theorem default_index_name_and_key_order:
  "((\<forall>d \<in> set userIndexes. index_key_well_formed (get_prop d ''key'')) \<longrightarrow>
      (\<exists>op. fromIndexDescriptionArray numberToString coll userIndexes opts = Inr op \<and>
         length (indexes op) = length userIndexes \<and>
         (\<forall>i < length userIndexes.
            get_prop (indexes op ! i) ''key'' =
              JMap (caller_key_fields (get_prop (userIndexes ! i) ''key'')) \<and>
            (nullish (get_prop (userIndexes ! i) ''name'') \<longrightarrow>
               get_prop (indexes op ! i) ''name'' =
                 JStr (underscore_name numberToString
                         (caller_key_fields (get_prop (userIndexes ! i) ''key'')))))))
   \<and>
   constructIndexDescriptionMap indexSpec = from_entries (specified_fields indexSpec)
   \<and>
   (distinct (map fst (specified_fields indexSpec)) \<longrightarrow>
      from_entries (specified_fields indexSpec) = specified_fields indexSpec)
   \<and>
   (nullish (get_prop (case opts' of None \<Rightarrow> [] | Some os \<Rightarrow> os) ''name'') \<longrightarrow>
      (\<exists>op ix. fromIndexSpecification numberToString coll indexSpec opts' = Inr op \<and>
         indexes op = [ix] \<and>
         get_prop ix ''key'' = JMap (from_entries (specified_fields indexSpec)) \<and>
         get_prop ix ''name'' =
           JStr (underscore_name numberToString (from_entries (specified_fields indexSpec)))))"
proof (intro conjI impI)
  assume wf: "\<forall>d \<in> set userIndexes. index_key_well_formed (get_prop d ''key'')"
  have "\<exists>ys. map_result (resolve_user_index numberToString) userIndexes = Inr ys"
    using wf by (intro map_result_total) (simp add: resolve_user_index_well_formed)
  then obtain ys where ys: "map_result (resolve_user_index numberToString) userIndexes = Inr ys" ..
  then have len: "length ys = length userIndexes"
    and each: "\<And>i. i < length userIndexes \<Longrightarrow>
                 resolve_user_index numberToString (userIndexes ! i) = Inr (ys ! i)"
    by (simp_all add: map_result_Inr)
  let ?op = "\<lparr> options = (case opts of None \<Rightarrow> [] | Some os \<Rightarrow> os),
                CreateIndexesOperation.collectionName = coll, indexes = ys \<rparr>"
  have new: "fromIndexDescriptionArray numberToString coll userIndexes opts = Inr ?op"
    by (simp add: fromIndexDescriptionArray_def CreateIndexesOperation_new_def ys)
  have "get_prop (ys ! i) ''key'' = JMap (caller_key_fields (get_prop (userIndexes ! i) ''key'')) \<and>
        (nullish (get_prop (userIndexes ! i) ''name'') \<longrightarrow>
           get_prop (ys ! i) ''name'' =
             JStr (underscore_name numberToString
                     (caller_key_fields (get_prop (userIndexes ! i) ''key''))))"
    if i: "i < length userIndexes" for i
  proof -
    from i wf have "index_key_well_formed (get_prop (userIndexes ! i) ''key'')" by simp
    from resolve_user_index_well_formed [OF this, of numberToString] each [OF i]
    show ?thesis by (auto simp: get_prop_set_entry coalesce_def)
  qed
  with new len
  show "\<exists>op. fromIndexDescriptionArray numberToString coll userIndexes opts = Inr op \<and>
         length (indexes op) = length userIndexes \<and>
         (\<forall>i < length userIndexes.
            get_prop (indexes op ! i) ''key'' =
              JMap (caller_key_fields (get_prop (userIndexes ! i) ''key'')) \<and>
            (nullish (get_prop (userIndexes ! i) ''name'') \<longrightarrow>
               get_prop (indexes op ! i) ''name'' =
                 JStr (underscore_name numberToString
                         (caller_key_fields (get_prop (userIndexes ! i) ''key'')))))"
    by auto
next
  show "constructIndexDescriptionMap indexSpec = from_entries (specified_fields indexSpec)"
    by (rule constructIndexDescriptionMap_fields)
next
  assume "distinct (map fst (specified_fields indexSpec))"
  then show "from_entries (specified_fields indexSpec) = specified_fields indexSpec"
    by (rule from_entries_distinct)
next
  define os where "os = (case opts' of None \<Rightarrow> [] | Some os \<Rightarrow> os)"
  assume "nullish (get_prop (case opts' of None \<Rightarrow> [] | Some os \<Rightarrow> os) ''name'')"
  then have a: "nullish (get_prop os ''name'')"
    by (simp add: os_def)
  let ?key = "from_entries (specified_fields indexSpec)"
  let ?description = "set_entry ''key'' (JMap ?key) os"
  have key: "get_prop ?description ''key'' = JMap ?key"
    and name: "get_prop ?description ''name'' = get_prop os ''name''"
    by (simp_all add: get_prop_set_entry)
  have "index_key_well_formed (JMap ?key)"
    by (simp add: distinct_from_entries)
  then have "index_key_well_formed (get_prop ?description ''key'')"
    by (simp only: key)
  from resolve_user_index_well_formed [OF this, of numberToString]
  obtain ix where ix: "resolve_user_index numberToString ?description = Inr ix"
    and ix_key: "get_prop ix ''key'' = JMap ?key"
    and ix_name: "get_prop ix ''name'' = JStr (underscore_name numberToString ?key)"
    using a by (simp add: key name get_prop_set_entry coalesce_def)
  have "fromIndexSpecification numberToString coll indexSpec opts' =
          Inr \<lparr> options = os, CreateIndexesOperation.collectionName = coll, indexes = [ix] \<rparr>"
    by (simp add: fromIndexSpecification_def CreateIndexesOperation_new_def
        constructIndexDescriptionMap_fields ix os_def [symmetric])
  with ix_key ix_name
  show "\<exists>op ix. fromIndexSpecification numberToString coll indexSpec opts' = Inr op \<and>
         indexes op = [ix] \<and>
         get_prop ix ''key'' = JMap (from_entries (specified_fields indexSpec)) \<and>
         get_prop ix ''name'' =
           JStr (underscore_name numberToString (from_entries (specified_fields indexSpec)))"
    by simp
qed

lemma example_description_resolved:
  "fromIndexDescriptionArray decimal ''c''
     [[(''key'', JObj [(''a'', JNum 1), (''b'', JNum (- 1))])]] None =
     Inr \<lparr> options = [], CreateIndexesOperation.collectionName = ''c'',
           indexes = [[(''name'', JStr ''a_1_b_-1''),
                       (''key'', JMap [(JStr ''a'', JNum 1), (JStr ''b'', JNum (- 1))])]] \<rparr>"
  by code_simp

lemma example_specification_resolved:
  "fromIndexSpecification decimal ''c'' (JObj [(''a'', JNum 1), (''b'', JNum (- 1))]) None =
     Inr \<lparr> options = [], CreateIndexesOperation.collectionName = ''c'',
           indexes = [[(''name'', JStr ''a_1_b_-1''),
                       (''key'', JMap [(JStr ''a'', JNum 1), (JStr ''b'', JNum (- 1))])]] \<rparr>"
  by code_simp

lemma example_specification_forms:
  "map (\<lambda>indexSpec. map_sum id indexes (fromIndexSpecification decimal ''c'' indexSpec None))
     [JStr ''a'',
      JArr [JStr ''a'', JNum (- 1)],
      JArr [JStr ''a'', JStr ''b''],
      JArr [JStr ''b'', JArr [JStr ''a'', JNum (- 1)], JObj [(''c'', JStr ''2d'')],
            JMap [(JStr ''d'', JNum 1)]]] =
     [Inr [[(''name'', JStr ''a_1''), (''key'', JMap [(JStr ''a'', JNum 1)])]],
      Inr [[(''name'', JStr ''a_-1''), (''key'', JMap [(JStr ''a'', JNum (- 1))])]],
      Inr [[(''name'', JStr ''a_1_b_1''),
            (''key'', JMap [(JStr ''a'', JNum 1), (JStr ''b'', JNum 1)])]],
      Inr [[(''name'', JStr ''b_1_a_-1_c_2d_d_1''),
            (''key'', JMap [(JStr ''b'', JNum 1), (JStr ''a'', JNum (- 1)),
                            (JStr ''c'', JStr ''2d''), (JStr ''d'', JNum 1)])]]]"
  by code_simp

lemma example_command_sent:
  "snd (snd (CreateIndexesOperation_execute
          \<lparr> maxWireVersion = (\<lambda>s. 21), executeCommand = (\<lambda>s c. Inr (JObj [(''ok'', JNum 1)])) \<rparr>
          (0 :: nat)
          \<lparr> options = [], CreateIndexesOperation.collectionName = ''c'',
            indexes = [[(''name'', JStr ''a_1_b_-1''),
                        (''key'', JMap [(JStr ''a'', JNum 1), (JStr ''b'', JNum (- 1))])]] \<rparr>
          [])) =
     [(0, JObj [(''createIndexes'', JStr ''c''),
                (''indexes'', JArr [JObj [(''name'', JStr ''a_1_b_-1''),
                   (''key'', JMap [(JStr ''a'', JNum 1), (JStr ''b'', JNum (- 1))])]])])]"
  by (simp add: CreateIndexesOperation_execute_def get_prop_def)

theorem default_index_name_and_key_order_witness:
  "index_key_well_formed
      (get_prop [(''key'', JObj [(''a'', JNum 1), (''b'', JNum (- 1))])] ''key'') \<and>
   distinct (map fst (specified_fields (JObj [(''a'', JNum 1), (''b'', JNum (- 1))]))) \<and>
   nullish (get_prop [] ''name'') \<and>
   constructIndexDescriptionMap (JObj [(''a'', JNum 1), (''b'', JNum (- 1))]) =
     [(JStr ''a'', JNum 1), (JStr ''b'', JNum (- 1))] \<and>
   (\<exists>op. fromIndexDescriptionArray decimal ''c''
            [[(''key'', JObj [(''a'', JNum 1), (''b'', JNum (- 1))])]] None = Inr op \<and>
         fromIndexSpecification decimal ''c''
            (JObj [(''a'', JNum 1), (''b'', JNum (- 1))]) None = Inr op \<and>
         map (\<lambda>ix. get_prop ix ''key'') (indexes op) =
           [JMap [(JStr ''a'', JNum 1), (JStr ''b'', JNum (- 1))]] \<and>
         map (\<lambda>ix. get_prop ix ''name'') (indexes op) = [JStr ''a_1_b_-1''] \<and>
         snd (snd (CreateIndexesOperation_execute
            \<lparr> maxWireVersion = (\<lambda>s. 21), executeCommand = (\<lambda>s c. Inr (JObj [(''ok'', JNum 1)])) \<rparr>
            (0 :: nat) op [])) =
           [(0, JObj [(''createIndexes'', JStr ''c''),
                      (''indexes'', JArr [JObj [(''name'', JStr ''a_1_b_-1''),
                         (''key'', JMap [(JStr ''a'', JNum 1), (JStr ''b'', JNum (- 1))])]])])]) \<and>
   map (\<lambda>indexSpec. map_sum id indexes (fromIndexSpecification decimal ''c'' indexSpec None))
     [JStr ''a'',
      JArr [JStr ''a'', JNum (- 1)],
      JArr [JStr ''a'', JStr ''b''],
      JArr [JStr ''b'', JArr [JStr ''a'', JNum (- 1)], JObj [(''c'', JStr ''2d'')],
            JMap [(JStr ''d'', JNum 1)]]] =
     [Inr [[(''name'', JStr ''a_1''), (''key'', JMap [(JStr ''a'', JNum 1)])]],
      Inr [[(''name'', JStr ''a_-1''), (''key'', JMap [(JStr ''a'', JNum (- 1))])]],
      Inr [[(''name'', JStr ''a_1_b_1''),
            (''key'', JMap [(JStr ''a'', JNum 1), (JStr ''b'', JNum 1)])]],
      Inr [[(''name'', JStr ''b_1_a_-1_c_2d_d_1''),
            (''key'', JMap [(JStr ''b'', JNum 1), (JStr ''a'', JNum (- 1)),
                            (JStr ''c'', JStr ''2d''), (JStr ''d'', JNum 1)])]]]"
proof -
  have fields: "specified_fields (JObj [(''a'', JNum 1), (''b'', JNum (- 1))]) =
                  [(JStr ''a'', JNum 1), (JStr ''b'', JNum (- 1))]"
    by simp
  have name: "underscore_name decimal [(JStr ''a'', JNum 1), (JStr ''b'', JNum (- 1))] = ''a_1_b_-1''"
    by code_simp
  from default_index_name_and_key_order
         [where userIndexes = "[[(''key'', JObj [(''a'', JNum 1), (''b'', JNum (- 1))])]]"
            and numberToString = decimal and coll = "''c''" and opts = None
            and indexSpec = "JObj [(''a'', JNum 1), (''b'', JNum (- 1))]" and opts' = None]
  have "constructIndexDescriptionMap (JObj [(''a'', JNum 1), (''b'', JNum (- 1))]) =
          [(JStr ''a'', JNum 1), (JStr ''b'', JNum (- 1))]"
    by (simp add: fields)
  then show ?thesis
    using example_specification_forms
    by (simp add: example_description_resolved example_specification_resolved
        example_command_sent get_prop_def fields)
qed

subsection \<open>Commit quorum\<close>

text \<open>
  C2. When the options of a \<^verbatim>\<open>CreateIndexesOperation\<close> carry a \<^verbatim>\<open>commitQuorum\<close>
  that is neither \<^verbatim>\<open>null\<close> nor \<^verbatim>\<open>undefined\<close> and the server's wire version is
  below 9, \<^verbatim>\<open>execute\<close> throws a \<^verbatim>\<open>MongoCompatibilityError\<close> (the
  specification's CompatibilityError), whatever \<^verbatim>\<open>executeCommand\<close> would do: no
  command is sent, and the operation is as it was.
\<close>

theorem commit_quorum_compatibility:
  assumes "\<not> nullish (get_prop (options this) ''commitQuorum'')"
    and "maxWireVersion rt srv < 9"
  shows "CreateIndexesOperation_execute rt srv this sent =
           (Inl (MongoCompatibilityError
              ''Option `commitQuorum` for `createIndexes` not supported on servers < 4.4''),
            this, sent)"
  using assms by (simp add: CreateIndexesOperation_execute_def)

theorem commit_quorum_compatibility_witness:
  "\<not> nullish (get_prop [(''commitQuorum'', JStr ''majority'')] ''commitQuorum'') \<and>
   maxWireVersion \<lparr> maxWireVersion = (\<lambda>s. 8),
                    executeCommand = (\<lambda>s c. Inr (JObj [(''ok'', JNum 1)])) \<rparr> (0 :: nat) < 9 \<and>
   CreateIndexesOperation_execute
     \<lparr> maxWireVersion = (\<lambda>s. 8), executeCommand = (\<lambda>s c. Inr (JObj [(''ok'', JNum 1)])) \<rparr>
     (0 :: nat)
     \<lparr> options = [(''commitQuorum'', JStr ''majority'')],
       CreateIndexesOperation.collectionName = ''c'',
       indexes = [[(''name'', JStr ''a_1''), (''key'', JMap [(JStr ''a'', JNum 1)])]] \<rparr>
     [] =
   (Inl (MongoCompatibilityError
      ''Option `commitQuorum` for `createIndexes` not supported on servers < 4.4''),
    \<lparr> options = [(''commitQuorum'', JStr ''majority'')],
      CreateIndexesOperation.collectionName = ''c'',
      indexes = [[(''name'', JStr ''a_1''), (''key'', JMap [(JStr ''a'', JNum 1)])]] \<rparr>,
    [])"
  using commit_quorum_compatibility
          [where this = "\<lparr> options = [(''commitQuorum'', JStr ''majority'')],
                 CreateIndexesOperation.collectionName = ''c'',
                 indexes = [[(''name'', JStr ''a_1''), (''key'', JMap [(JStr ''a'', JNum 1)])]] \<rparr>"
             and rt = "\<lparr> maxWireVersion = (\<lambda>s. 8),
                 executeCommand = (\<lambda>s c. Inr (JObj [(''ok'', JNum 1)])) \<rparr>"
             and srv = "0 :: nat" and sent = "[]"]
  by (simp add: get_prop_def)

subsection \<open>The names returned\<close>

lemma js_or_name:
  "index_name_well_formed n \<Longrightarrow> js_or (coalesce n (JStr s)) (JStr []) = (if nullish n then JStr s else n)"
  by (cases n) (auto simp: js_or_def coalesce_def)

lemma resolved_name:
  assumes "index_key_well_formed (get_prop d ''key'')"
    and "index_name_well_formed (get_prop d ''name'')"
    and "resolve_user_index numberToString d = Inr ix"
  shows "js_or (get_prop ix ''name'') (JStr []) = expected_index_name numberToString d"
proof -
  from resolve_user_index_well_formed [OF assms(1)] assms(3)
  have "get_prop ix ''name'' =
          coalesce (get_prop d ''name'')
            (JStr (underscore_name numberToString (caller_key_fields (get_prop d ''key''))))"
    by (auto simp: get_prop_set_entry)
  with js_or_name [OF assms(2)] show ?thesis
    by (simp add: expected_index_name_def)
qed

text \<open>
  C10. Let the caller's index descriptions be of the declared type: the key a plain
  object or a \<^verbatim>\<open>Map\<close>, the name a string or none. Then the operation is created, and
  every execution of it that returns, returns the index names in the order of the
  descriptions: the caller's name where one was given, the derived default otherwise.
  This holds for every behaviour of \<^verbatim>\<open>executeCommand\<close>, hence for every content
  of the server's reply. And the execution does return them whenever
  \<^verbatim>\<open>executeCommand\<close> returns a reply and no commit quorum is asked of a server
  below wire version 9.
\<close>

theorem returned_index_names:
  assumes wf: "\<forall>d \<in> set userIndexes.
                 index_key_well_formed (get_prop d ''key'') \<and>
                 index_name_well_formed (get_prop d ''name'')"
  shows "\<exists>op. fromIndexDescriptionArray numberToString coll userIndexes opts = Inr op \<and>
           (\<forall>rt (srv :: 'srv) sent names.
              fst (CreateIndexesOperation_execute rt srv op sent) = Inr names \<longrightarrow>
                names = map (expected_index_name numberToString) userIndexes) \<and>
           (\<forall>rt (srv :: 'srv) sent.
              (nullish (get_prop (options op) ''commitQuorum'') \<or> 9 \<le> maxWireVersion rt srv) \<and>
              (\<forall>cmd. \<exists>reply. executeCommand rt srv cmd = Inr reply) \<longrightarrow>
                fst (CreateIndexesOperation_execute rt srv op sent) =
                  Inr (map (expected_index_name numberToString) userIndexes))"
proof -
  have "\<exists>ys. map_result (resolve_user_index numberToString) userIndexes = Inr ys"
    using wf by (intro map_result_total) (simp add: resolve_user_index_well_formed)
  then obtain ys where ys: "map_result (resolve_user_index numberToString) userIndexes = Inr ys" ..
  then have len: "length ys = length userIndexes"
    and each: "\<And>i. i < length userIndexes \<Longrightarrow> resolve_user_index numberToString (userIndexes ! i) = Inr (ys ! i)"
    by (simp_all add: map_result_Inr)
  let ?op = "\<lparr> options = (case opts of None \<Rightarrow> [] | Some os \<Rightarrow> os),
                CreateIndexesOperation.collectionName = coll, indexes = ys \<rparr>"
  have new: "fromIndexDescriptionArray numberToString coll userIndexes opts = Inr ?op"
    by (simp add: fromIndexDescriptionArray_def CreateIndexesOperation_new_def ys)
  have names: "map (\<lambda>index. js_or (get_prop index ''name'') (JStr [])) ys =
                 map (expected_index_name numberToString) userIndexes"
  proof (rule nth_equalityI)
    show "length (map (\<lambda>index. js_or (get_prop index ''name'') (JStr [])) ys) =
            length (map (expected_index_name numberToString) userIndexes)"
      by (simp add: len)
  next
    fix i
    assume "i < length (map (\<lambda>index. js_or (get_prop index ''name'') (JStr [])) ys)"
    then have i: "i < length userIndexes" by (simp add: len)
    with wf have "index_key_well_formed (get_prop (userIndexes ! i) ''key'')"
      and "index_name_well_formed (get_prop (userIndexes ! i) ''name'')"
      by simp_all
    from resolved_name [OF this each [OF i]] i
    show "map (\<lambda>index. js_or (get_prop index ''name'') (JStr [])) ys ! i =
            map (expected_index_name numberToString) userIndexes ! i"
      by (simp add: len)
  qed
  have only: "names' = map (expected_index_name numberToString) userIndexes"
    if "fst (CreateIndexesOperation_execute rt srv ?op sent) = Inr names'"
    for rt and srv :: 'srv and sent names'
    using that names
    by (auto simp: CreateIndexesOperation_execute_def Let_def split: if_splits sum.splits)
  have total: "fst (CreateIndexesOperation_execute rt srv ?op sent) =
                 Inr (map (expected_index_name numberToString) userIndexes)"
    if "nullish (get_prop (options ?op) ''commitQuorum'') \<or> 9 \<le> maxWireVersion rt srv"
      and "\<forall>cmd. \<exists>reply. executeCommand rt srv cmd = Inr reply"
    for rt and srv :: 'srv and sent
  proof -
    let ?cmd = "[(''createIndexes'', JStr coll), (''indexes'', JArr (map JObj ys))]"
    let ?cq = "get_prop (case opts of None \<Rightarrow> [] | Some os \<Rightarrow> os) ''commitQuorum''"
    let ?cmd' = "if \<not> nullish ?cq then set_entry ''commitQuorum'' ?cq ?cmd else ?cmd"
    from that(2) obtain reply where "executeCommand rt srv (JObj ?cmd') = Inr reply"
      by blast
    with that(1) names show ?thesis
      by (auto simp: CreateIndexesOperation_execute_def Let_def)
  qed
  from new only total show ?thesis
    by (intro exI [of _ ?op]) (simp only: HOL.simp_thms, blast)
qed


theorem returned_index_names_witness:
  "index_key_well_formed (get_prop [(''key'', JObj [(''a'', JNum 1)]), (''name'', JStr ''first'')] ''key'') \<and>
   index_name_well_formed (get_prop [(''key'', JObj [(''a'', JNum 1)]), (''name'', JStr ''first'')] ''name'') \<and>
   index_key_well_formed (get_prop [(''key'', JObj [(''b'', JNum (- 1))])] ''key'') \<and>
   index_name_well_formed (get_prop [(''key'', JObj [(''b'', JNum (- 1))])] ''name'') \<and>
   (\<exists>op. fromIndexDescriptionArray decimal ''c''
            [[(''key'', JObj [(''a'', JNum 1)]), (''name'', JStr ''first'')],
             [(''key'', JObj [(''b'', JNum (- 1))])]] None = Inr op \<and>
         fst (CreateIndexesOperation_execute
                \<lparr> maxWireVersion = (\<lambda>s. 21),
                  executeCommand = (\<lambda>s c. Inr (JObj [(''ok'', JNum 1)])) \<rparr>
                (0 :: nat) op []) =
           Inr [JStr ''first'', JStr ''b_-1''])"
proof -
  have created: "fromIndexDescriptionArray decimal ''c''
            [[(''key'', JObj [(''a'', JNum 1)]), (''name'', JStr ''first'')],
             [(''key'', JObj [(''b'', JNum (- 1))])]] None =
          Inr \<lparr> options = [], CreateIndexesOperation.collectionName = ''c'',
                indexes = [[(''name'', JStr ''first''), (''key'', JMap [(JStr ''a'', JNum 1)])],
                           [(''name'', JStr ''b_-1''), (''key'', JMap [(JStr ''b'', JNum (- 1))])]] \<rparr>"
    by code_simp
  have executed: "fst (CreateIndexesOperation_execute
                \<lparr> maxWireVersion = (\<lambda>s. 21),
                  executeCommand = (\<lambda>s c. Inr (JObj [(''ok'', JNum 1)])) \<rparr>
                (0 :: nat)
                \<lparr> options = [], CreateIndexesOperation.collectionName = ''c'',
                  indexes = [[(''name'', JStr ''first''), (''key'', JMap [(JStr ''a'', JNum 1)])],
                             [(''name'', JStr ''b_-1''), (''key'', JMap [(JStr ''b'', JNum (- 1))])]] \<rparr>
                []) =
           Inr [JStr ''first'', JStr ''b_-1'']"
    by (simp add: CreateIndexesOperation_execute_def get_prop_def js_or_def)
  have typed: "index_key_well_formed (get_prop [(''key'', JObj [(''a'', JNum 1)]), (''name'', JStr ''first'')] ''key'') \<and>
   index_name_well_formed (get_prop [(''key'', JObj [(''a'', JNum 1)]), (''name'', JStr ''first'')] ''name'') \<and>
   index_key_well_formed (get_prop [(''key'', JObj [(''b'', JNum (- 1))])] ''key'') \<and>
   index_name_well_formed (get_prop [(''key'', JObj [(''b'', JNum (- 1))])] ''name'')"
    by (simp add: get_prop_def)
  from returned_index_names
         [where userIndexes = "[[(''key'', JObj [(''a'', JNum 1)]), (''name'', JStr ''first'')],
               [(''key'', JObj [(''b'', JNum (- 1))])]]"
            and coll = "''c''" and opts = None and numberToString = decimal] typed
  have "\<exists>op. fromIndexDescriptionArray decimal ''c''
            [[(''key'', JObj [(''a'', JNum 1)]), (''name'', JStr ''first'')],
             [(''key'', JObj [(''b'', JNum (- 1))])]] None = Inr op"
    by auto
  with created executed typed show ?thesis
    by simp
qed

subsection \<open>Unrecognised index options\<close>

lemma v_not_valid: "\<not> valid_index_option ''v''"
  by (simp add: valid_index_option_def VALID_INDEX_OPTIONS_def)

lemma version_valid: "valid_index_option ''version''"
  by (simp add: valid_index_option_def VALID_INDEX_OPTIONS_def)

lemma renamed_keys_distinct:
  assumes "distinct (map fst d)"
  shows "distinct (map fst
           (map (\<lambda>(name, v). if name = ''version'' then (''v'', v) else (name, v))
              (filter (\<lambda>(optionName, v). valid_index_option optionName) d)))"
proof -
  let ?g = "\<lambda>k. if k = ''version'' then ''v'' else k"
  let ?ks = "map fst (filter (\<lambda>(optionName, v). valid_index_option optionName) d)"
  have eq: "map fst
           (map (\<lambda>(name, v). if name = ''version'' then (''v'', v) else (name, v))
              (filter (\<lambda>(optionName, v). valid_index_option optionName) d)) = map ?g ?ks"
    by (induction d) auto
  have "distinct ?ks"
    using assms by (induction d) auto
  moreover have "inj_on ?g (set ?ks)"
    using v_not_valid by (auto simp: inj_on_def)
  ultimately show ?thesis
    by (simp only: eq distinct_map) 
qed

lemma resolveIndexDescription_distinct:
  assumes "distinct (map fst d)"
  shows "resolveIndexDescription d =
           map (\<lambda>(name, v). if name = ''version'' then (''v'', v) else (name, v))
             (filter (\<lambda>(optionName, v). valid_index_option optionName) d)"
  unfolding resolveIndexDescription_def Let_def
  by (rule from_entries_distinct) (rule renamed_keys_distinct [OF assms])

lemma renamed_membership:
  "(k, v) \<in> set (map (\<lambda>(name, v). if name = ''version'' then (''v'', v) else (name, v))
                    (filter (\<lambda>(optionName, v). valid_index_option optionName) d)) \<longleftrightarrow>
     (valid_index_option k \<and> k \<noteq> ''version'' \<and> (k, v) \<in> set d) \<or>
     (k = ''v'' \<and> (''version'', v) \<in> set d)"
  using v_not_valid version_valid by (induction d) (auto split: if_splits)

text \<open>
  C6, amended. For an index description (a plain object), \<^verbatim>\<open>resolveIndexDescription\<close>
  returns exactly these options: every option of the description whose name is in
  \<^verbatim>\<open>VALID_INDEX_OPTIONS\<close> and is not \<^verbatim>\<open>version\<close>, under its name and with its
  value, and the value of \<^verbatim>\<open>version\<close> under the name \<^verbatim>\<open>v\<close>. Every other key of
  the description is left out, a \<^verbatim>\<open>v\<close> of the caller's included. Nothing fails:
  when the key of the description is of the declared type, the constructor resolves
  the description, and apart from \<^verbatim>\<open>name\<close> and \<^verbatim>\<open>key\<close> the resolved index reads as
  the result of \<^verbatim>\<open>resolveIndexDescription\<close>.
\<close>

theorem unrecognized_index_options_discarded:
  assumes "distinct (map fst description)"
  shows "(\<forall>k v. (k, v) \<in> set (resolveIndexDescription description) \<longleftrightarrow>
            (valid_index_option k \<and> k \<noteq> ''version'' \<and> (k, v) \<in> set description) \<or>
            (k = ''v'' \<and> (''version'', v) \<in> set description)) \<and>
         (index_key_well_formed (get_prop description ''key'') \<longrightarrow>
            (\<exists>ix. resolve_user_index numberToString description = Inr ix \<and>
               (\<forall>k. k \<noteq> ''name'' \<and> k \<noteq> ''key'' \<longrightarrow>
                  get_prop ix k = get_prop (resolveIndexDescription description) k)))"
proof (intro conjI allI impI)
  fix k v
  show "(k, v) \<in> set (resolveIndexDescription description) \<longleftrightarrow>
          (valid_index_option k \<and> k \<noteq> ''version'' \<and> (k, v) \<in> set description) \<or>
          (k = ''v'' \<and> (''version'', v) \<in> set description)"
    by (simp only: resolveIndexDescription_distinct [OF assms] renamed_membership)
next
  assume "index_key_well_formed (get_prop description ''key'')"
  from resolve_user_index_well_formed [OF this]
  show "\<exists>ix. resolve_user_index numberToString description = Inr ix \<and>
          (\<forall>k. k \<noteq> ''name'' \<and> k \<noteq> ''key'' \<longrightarrow>
             get_prop ix k = get_prop (resolveIndexDescription description) k)"
    by (simp add: get_prop_set_entry)
qed

text \<open>
  The claim as stated, "every recognized option is kept with its value", fails for
  the recognised option \<^verbatim>\<open>version\<close>: the resolved index has no \<^verbatim>\<open>version\<close>.
\<close>

theorem version_option_renamed_counterexample:
  "valid_index_option ''version'' \<and>
   resolveIndexDescription [(''key'', JObj [(''a'', JNum 1)]), (''version'', JNum 2)] =
     [(''v'', JNum 2)] \<and>
   resolve_user_index decimal [(''key'', JObj [(''a'', JNum 1)]), (''version'', JNum 2)] =
     Inr [(''v'', JNum 2), (''name'', JStr ''a_1''), (''key'', JMap [(JStr ''a'', JNum 1)])] \<and>
   get_prop [(''v'', JNum 2), (''name'', JStr ''a_1''), (''key'', JMap [(JStr ''a'', JNum 1)])]
     ''version'' = JUndefined"
  by code_simp

theorem unrecognized_index_options_discarded_witness:
  "distinct (map fst [(''key'', JObj [(''a'', JNum 1)]), (''version'', JNum 2), (''v'', JNum 3),
      (''frobnicate'', JBool True), (''unique'', JBool True)]) \<and>
   index_key_well_formed (get_prop [(''key'', JObj [(''a'', JNum 1)]), (''version'', JNum 2),
      (''v'', JNum 3), (''frobnicate'', JBool True), (''unique'', JBool True)] ''key'') \<and>
   resolveIndexDescription [(''key'', JObj [(''a'', JNum 1)]), (''version'', JNum 2),
      (''v'', JNum 3), (''frobnicate'', JBool True), (''unique'', JBool True)] =
     [(''v'', JNum 2), (''unique'', JBool True)] \<and>
   resolve_user_index decimal [(''key'', JObj [(''a'', JNum 1)]), (''version'', JNum 2),
      (''v'', JNum 3), (''frobnicate'', JBool True), (''unique'', JBool True)] =
     Inr [(''v'', JNum 2), (''unique'', JBool True), (''name'', JStr ''a_1''),
          (''key'', JMap [(JStr ''a'', JNum 1)])]"
proof -
  have "resolveIndexDescription [(''key'', JObj [(''a'', JNum 1)]), (''version'', JNum 2),
      (''v'', JNum 3), (''frobnicate'', JBool True), (''unique'', JBool True)] =
     [(''v'', JNum 2), (''unique'', JBool True)]"
    by code_simp
  moreover have "resolve_user_index decimal [(''key'', JObj [(''a'', JNum 1)]), (''version'', JNum 2),
      (''v'', JNum 3), (''frobnicate'', JBool True), (''unique'', JBool True)] =
     Inr [(''v'', JNum 2), (''unique'', JBool True), (''name'', JStr ''a_1''),
          (''key'', JMap [(JStr ''a'', JNum 1)])]"
    by code_simp
  ultimately show ?thesis
    using unrecognized_index_options_discarded
            [where description = "[(''key'', JObj [(''a'', JNum 1)]), (''version'', JNum 2),
                  (''v'', JNum 3), (''frobnicate'', JBool True), (''unique'', JBool True)]"
               and numberToString = decimal]
    by (simp add: get_prop_def)
qed

subsection \<open>Command documents\<close>

text \<open>
  C7, amended. The document that each \<^verbatim>\<open>execute\<close> hands to \<^verbatim>\<open>executeCommand\<close>,
  field by field. \<^verbatim>\<open>CreateIndexesOperation\<close>: \<^verbatim>\<open>createIndexes\<close> and \<^verbatim>\<open>indexes\<close>,
  and \<^verbatim>\<open>commitQuorum\<close> when one is requested (on a server below wire version 9
  the request is refused and nothing is sent). \<^verbatim>\<open>ListIndexesOperation\<close>:
  \<^verbatim>\<open>listIndexes\<close> and \<^verbatim>\<open>cursor\<close>, where \<^verbatim>\<open>cursor\<close> holds \<^verbatim>\<open>batchSize\<close> when the
  batch size of the options is truthy and is empty otherwise, and \<^verbatim>\<open>comment\<close> when
  the options have a comment other than \<^verbatim>\<open>undefined\<close> and the wire version is at
  least 9. \<^verbatim>\<open>DropIndexOperation\<close>: \<^verbatim>\<open>dropIndexes\<close> and \<^verbatim>\<open>index\<close>.
\<close>

theorem command_field_names:
  "snd (snd (CreateIndexesOperation_execute rt srv cio sent)) =
     (if \<not> nullish (get_prop (options cio) ''commitQuorum'') \<and> maxWireVersion rt srv < 9
      then sent
      else sent @
        [(srv, JObj ([(''createIndexes'', JStr (CreateIndexesOperation.collectionName cio)),
                      (''indexes'', JArr (map JObj (indexes cio)))] @
                     (if nullish (get_prop (options cio) ''commitQuorum'') then []
                      else [(''commitQuorum'', get_prop (options cio) ''commitQuorum'')])))]) \<and>
   snd (snd (ListIndexesOperation_execute rt srv lio sent)) =
     sent @
       [(srv, JObj ([(''listIndexes'', JStr (MongoDBNamespace.collection (collectionNamespace lio))),
                     (''cursor'',
                      JObj (if truthy (get_prop (options lio) ''batchSize'')
                            then [(''batchSize'', get_prop (options lio) ''batchSize'')]
                            else []))] @
                    (if 9 \<le> maxWireVersion rt srv \<and> get_prop (options lio) ''comment'' \<noteq> JUndefined
                     then [(''comment'', get_prop (options lio) ''comment'')]
                     else [])))] \<and>
   snd (snd (DropIndexOperation_execute rt srv dio sent)) =
     sent @
       [(srv, JObj [(''dropIndexes'',
                       JStr (Collection.collectionName (DropIndexOperation.collection dio))),
                    (''index'', JStr (indexName dio))])]"
  by (simp add: CreateIndexesOperation_execute_def ListIndexesOperation_execute_def
      DropIndexOperation_execute_def Let_def split: sum.splits)

text \<open>
  The claim as stated, "with \<^verbatim>\<open>cursor.batchSize\<close> when a batch size is set", fails for
  the batch size 0: it is set, and the \<^verbatim>\<open>cursor\<close> document sent is empty.
\<close>

theorem list_indexes_batch_size_zero_counterexample:
  "get_prop (options (ListIndexesOperation_new
       \<lparr> Collection.collectionName = ''c'', s_namespace = \<lparr> MongoDBNamespace.db = ''d'', MongoDBNamespace.collection = ''c'' \<rparr> \<rparr>
       (Some [(''batchSize'', JNum 0)]))) ''batchSize'' = JNum 0 \<and>
   snd (snd (ListIndexesOperation_execute
       \<lparr> maxWireVersion = (\<lambda>s. 21), executeCommand = (\<lambda>s c. Inr (JObj [(''ok'', JNum 1)])) \<rparr>
       (0 :: nat)
       (ListIndexesOperation_new
          \<lparr> Collection.collectionName = ''c'', s_namespace = \<lparr> MongoDBNamespace.db = ''d'', MongoDBNamespace.collection = ''c'' \<rparr> \<rparr>
          (Some [(''batchSize'', JNum 0)]))
       [])) =
     [(0, JObj [(''listIndexes'', JStr ''c''), (''cursor'', JObj [])])]"
  by (simp add: ListIndexesOperation_execute_def ListIndexesOperation_new_def get_prop_def
      delete_prop_def)

theorem command_field_names_witness:
  "snd (snd (CreateIndexesOperation_execute
       \<lparr> maxWireVersion = (\<lambda>s. 9), executeCommand = (\<lambda>s c. Inr (JObj [(''ok'', JNum 1)])) \<rparr>
       (0 :: nat)
       \<lparr> options = [(''commitQuorum'', JStr ''majority'')],
         CreateIndexesOperation.collectionName = ''c'',
         indexes = [[(''name'', JStr ''a_1''), (''key'', JMap [(JStr ''a'', JNum 1)])]] \<rparr>
       [])) =
     [(0, JObj [(''createIndexes'', JStr ''c''),
                (''indexes'', JArr [JObj [(''name'', JStr ''a_1''),
                                          (''key'', JMap [(JStr ''a'', JNum 1)])]]),
                (''commitQuorum'', JStr ''majority'')])] \<and>
   snd (snd (ListIndexesOperation_execute
       \<lparr> maxWireVersion = (\<lambda>s. 9), executeCommand = (\<lambda>s c. Inr (JObj [(''ok'', JNum 1)])) \<rparr>
       (0 :: nat)
       \<lparr> options = [(''batchSize'', JNum 5)],
         collectionNamespace = \<lparr> MongoDBNamespace.db = ''d'', MongoDBNamespace.collection = ''c'' \<rparr> \<rparr>
       [])) =
     [(0, JObj [(''listIndexes'', JStr ''c''), (''cursor'', JObj [(''batchSize'', JNum 5)])])] \<and>
   snd (snd (DropIndexOperation_execute
       \<lparr> maxWireVersion = (\<lambda>s. 9), executeCommand = (\<lambda>s c. Inr (JObj [(''ok'', JNum 1)])) \<rparr>
       (0 :: nat)
       \<lparr> options = [],
         DropIndexOperation.collection = \<lparr> Collection.collectionName = ''c'', s_namespace = \<lparr> MongoDBNamespace.db = ''d'', MongoDBNamespace.collection = ''c'' \<rparr> \<rparr>,
         indexName = ''a_1'' \<rparr>
       [])) =
     [(0, JObj [(''dropIndexes'', JStr ''c''), (''index'', JStr ''a_1'')])]"
  using command_field_names
    [where rt = "\<lparr> maxWireVersion = (\<lambda>s. 9),
                    executeCommand = (\<lambda>s c. Inr (JObj [(''ok'', JNum 1)])) \<rparr>"
       and srv = "0 :: nat" and sent = "[]"
       and cio = "\<lparr> options = [(''commitQuorum'', JStr ''majority'')],
         CreateIndexesOperation.collectionName = ''c'',
         indexes = [[(''name'', JStr ''a_1''), (''key'', JMap [(JStr ''a'', JNum 1)])]] \<rparr>"
       and lio = "\<lparr> options = [(''batchSize'', JNum 5)],
         collectionNamespace = \<lparr> MongoDBNamespace.db = ''d'', MongoDBNamespace.collection = ''c'' \<rparr> \<rparr>"
       and dio = "\<lparr> options = [],
         DropIndexOperation.collection = \<lparr> Collection.collectionName = ''c'', s_namespace = \<lparr> MongoDBNamespace.db = ''d'', MongoDBNamespace.collection = ''c'' \<rparr> \<rparr>,
         indexName = ''a_1'' \<rparr>"]
  by (simp add: get_prop_def)

subsection \<open>Methods of the raw-command cursor\<close>

text \<open>
  C3. On a raw-command cursor in any state, with any history and any argument, each
  of \<^verbatim>\<open>withReadConcern\<close>, \<^verbatim>\<open>addCursorFlag\<close>, \<^verbatim>\<open>maxTimeMS\<close> and \<^verbatim>\<open>batchSize\<close>
  throws a \<^verbatim>\<open>MongoAPIError\<close>, the driver's error for a misuse of the API and the
  specification's UnsupportedCursorOperationError. The methods are not asynchronous
  and take no part in the execution of operations: nothing is issued, and the cursor
  is as it was.
\<close>

theorem disallowed_configuration_rejected:
  "withReadConcern rc this hist =
     (Inl (MongoAPIError
        ''RunCommandCursor does not support readConcern it must be attached to the command being run''),
      this, hist) \<and>
   addCursorFlag flag flagValue this hist =
     (Inl (MongoAPIError
        ''RunCommandCursor does not support cursor flags, they must be attached to the command being run''),
      this, hist) \<and>
   maxTimeMS ms this hist =
     (Inl (MongoAPIError
        ''maxTimeMS must be configured on the command document directly, to configure getMore.maxTimeMS use cursor.setMaxTimeMS()''),
      this, hist) \<and>
   batchSize n this hist =
     (Inl (MongoAPIError
        ''batchSize must be configured on the command document directly, to configure getMore.batchSize use cursor.setBatchSize()''),
      this, hist) \<and>
   cursor_step rt (this, hist) (WithReadConcern rc) = (this, hist) \<and>
   cursor_step rt (this, hist) (AddCursorFlag flag flagValue) = (this, hist) \<and>
   cursor_step rt (this, hist) (MaxTimeMS ms) = (this, hist) \<and>
   cursor_step rt (this, hist) (BatchSize n) = (this, hist)"
  by (simp add: withReadConcern_def addCursorFlag_def maxTimeMS_def batchSize_def after_def)

text \<open>
  C8. On a raw-command cursor in any state \<^verbatim>\<open>clone\<close> throws a \<^verbatim>\<open>MongoAPIError\<close>;
  it never returns a cursor, and the cursor and the history are as they were.
\<close>

theorem clone_always_fails:
  "clone this hist =
     (Inl (MongoAPIError ''Clone not supported, create a new cursor with db.runCursorCommand''),
      this, hist) \<and>
   (\<forall>copy. fst (clone this hist) \<noteq> Inr copy)"
  by (simp add: clone_def)

lemma getMore_options:
  assumes "distinct (map fst (getMoreOptions this))"
    and "k \<in> set (map fst (getMoreOptions this))"
    and "k \<noteq> ''omitMaxTimeMS''"
  shows "\<exists>out os. snd (snd (getMore rt n this hist)) =
           hist @ [(GetMoreOperation (namespace this) (cursor_id this) (server this) os, out)] \<and>
           get_prop os k = get_prop (getMoreOptions this) k"
  using assms
  by (simp add: getMore_def Let_def split_beta get_prop_set_entry get_prop_set_entries)

text \<open>
  C5, amended. The source has no test of the cursor's state in \<^verbatim>\<open>setComment\<close>,
  \<^verbatim>\<open>setBatchSize\<close> and \<^verbatim>\<open>setMaxTimeMS\<close>: in every state each of them succeeds,
  leaves the state and the history as they were, and stores its argument in the
  \<^verbatim>\<open>getMore\<close> options, so that the next \<^verbatim>\<open>getMore\<close> carries it as \<^verbatim>\<open>comment\<close>,
  \<^verbatim>\<open>batchSize\<close> or \<^verbatim>\<open>maxAwaitTimeMS\<close>. The \<^verbatim>\<open>getMore\<close> options are an object,
  so their keys are distinct.
\<close>

theorem configuration_mutators_always_succeed:
  assumes "distinct (map fst (getMoreOptions this))"
  shows "(\<exists>this'. setComment c this hist = (Inr (), this', hist) \<and> state this' = state this \<and>
            (\<forall>rt n. \<exists>out os. snd (snd (getMore rt n this' hist)) =
               hist @ [(GetMoreOperation (namespace this) (cursor_id this) (server this) os, out)] \<and>
               get_prop os ''comment'' = c)) \<and>
         (\<exists>this'. setBatchSize b this hist = (Inr (), this', hist) \<and> state this' = state this \<and>
            (\<forall>rt n. \<exists>out os. snd (snd (getMore rt n this' hist)) =
               hist @ [(GetMoreOperation (namespace this) (cursor_id this) (server this) os, out)] \<and>
               get_prop os ''batchSize'' = JNum b)) \<and>
         (\<exists>this'. setMaxTimeMS ms this hist = (Inr (), this', hist) \<and> state this' = state this \<and>
            (\<forall>rt n. \<exists>out os. snd (snd (getMore rt n this' hist)) =
               hist @ [(GetMoreOperation (namespace this) (cursor_id this) (server this) os, out)] \<and>
               get_prop os ''maxAwaitTimeMS'' = JNum ms))"
proof -
  have *: "\<exists>out os. snd (snd (getMore rt n (this\<lparr>getMoreOptions := set_entry k v (getMoreOptions this)\<rparr>) hist)) =
               hist @ [(GetMoreOperation (namespace this) (cursor_id this) (server this) os, out)] \<and>
               get_prop os k = v"
    if "k \<noteq> ''omitMaxTimeMS''" for k v rt n
    using getMore_options [of "this\<lparr>getMoreOptions := set_entry k v (getMoreOptions this)\<rparr>" k rt n hist]
      assms that
    by (simp add: distinct_set_entry key_in_set_entry get_prop_set_entry del: set_map)
  show ?thesis
    using * [of "''comment''"] * [of "''batchSize''"] * [of "''maxAwaitTimeMS''"]
    by (simp add: setComment_def setBatchSize_def setMaxTimeMS_def)
qed

lemma example_initialized:
  "run (example_runtime [JNum 1]) [Initialize] (example_cursor, []) =
   (\<lparr>cursor_id = Some 7,
      namespace = \<lparr>MongoDBNamespace.db = ''d'', MongoDBNamespace.collection = ''c''\<rparr>,
      buffer = [JNum 1], server = Some 1, session = JUndefined, state = OPEN, cursorOptions = [],
      command = [(''aggregate'', JStr ''c''), (''cursor'', JObj [])], getMoreOptions = [],
      db = \<lparr>MongoDBNamespace.db = ''d'', MongoDBNamespace.collection = ''c''\<rparr>\<rparr>,
    [(RunCommandOperation \<lparr>MongoDBNamespace.db = ''d'', MongoDBNamespace.collection = ''c''\<rparr>
        [(''aggregate'', JStr ''c''), (''cursor'', JObj [])]
        [(''session'', JUndefined), (''readPreference'', JUndefined), (''omitMaxTimeMS'', JUndefined),
         (''responseType'', JStr ''CursorResponse'')],
      Some 1, Inr \<lparr>response_id = 7, batch = [JNum 1]\<rparr>)])"
  by code_simp

text \<open>
  The claim as stated, that the three mutators fail outside the state
  \<open>UNINITIALIZED\<close>, fails on a cursor that has been initialized and is \<open>OPEN\<close>:
  all three succeed there and the options are stored.
\<close>

theorem configuration_after_initialization_counterexample:
  "state (fst (run (example_runtime [JNum 1]) [Initialize] (example_cursor, []))) = OPEN \<and>
   fst (setComment (JStr ''x'')
          (fst (run (example_runtime [JNum 1]) [Initialize] (example_cursor, [])))
          (snd (run (example_runtime [JNum 1]) [Initialize] (example_cursor, [])))) = Inr () \<and>
   fst (setBatchSize 5
          (fst (run (example_runtime [JNum 1]) [Initialize] (example_cursor, [])))
          (snd (run (example_runtime [JNum 1]) [Initialize] (example_cursor, [])))) = Inr () \<and>
   fst (setMaxTimeMS 100
          (fst (run (example_runtime [JNum 1]) [Initialize] (example_cursor, [])))
          (snd (run (example_runtime [JNum 1]) [Initialize] (example_cursor, [])))) = Inr () \<and>
   getMoreOptions (fst (run (example_runtime [JNum 1])
       [Initialize, SetComment (JStr ''x''), SetBatchSize 5, SetMaxTimeMS 100]
       (example_cursor, []))) =
     [(''comment'', JStr ''x''), (''batchSize'', JNum 5), (''maxAwaitTimeMS'', JNum 100)]"
  by code_simp

theorem configuration_mutators_always_succeed_witness:
  "distinct (map fst (getMoreOptions
      (fst (run (example_runtime [JNum 1]) [Initialize] (example_cursor, []))))) \<and>
   state (fst (run (example_runtime [JNum 1]) [Initialize] (example_cursor, []))) = OPEN \<and>
   (\<exists>this'. setComment (JStr ''x'')
        (fst (run (example_runtime [JNum 1]) [Initialize] (example_cursor, [])))
        (snd (run (example_runtime [JNum 1]) [Initialize] (example_cursor, []))) =
      (Inr (), this', snd (run (example_runtime [JNum 1]) [Initialize] (example_cursor, []))) \<and>
      state this' = OPEN \<and>
      (\<exists>out os. snd (snd (getMore (example_runtime []) 0 this'
                  (snd (run (example_runtime [JNum 1]) [Initialize] (example_cursor, []))))) =
         snd (run (example_runtime [JNum 1]) [Initialize] (example_cursor, [])) @
           [(GetMoreOperation \<lparr>MongoDBNamespace.db = ''d'', MongoDBNamespace.collection = ''c''\<rparr>
               (Some 7) (Some 1) os, out)] \<and>
         get_prop os ''comment'' = JStr ''x''))"
proof -
  let ?c = "fst (run (example_runtime [JNum 1]) [Initialize] (example_cursor, []))"
  let ?h = "snd (run (example_runtime [JNum 1]) [Initialize] (example_cursor, []))"
  have d: "distinct (map fst (getMoreOptions ?c))"
    and s: "state ?c = OPEN"
    and n: "namespace ?c = \<lparr>MongoDBNamespace.db = ''d'', MongoDBNamespace.collection = ''c''\<rparr>"
    and i: "cursor_id ?c = Some 7"
    and b: "server ?c = Some 1"
    by (simp_all add: example_initialized)
  from configuration_mutators_always_succeed [OF d, of "JStr ''x''" ?h]
  obtain this' where "setComment (JStr ''x'') ?c ?h = (Inr (), this', ?h)"
    and "state this' = state ?c"
    and "\<forall>rt n. \<exists>out os. snd (snd (getMore rt n this' ?h)) =
               ?h @ [(GetMoreOperation (namespace ?c) (cursor_id ?c) (server ?c) os, out)] \<and>
               get_prop os ''comment'' = JStr ''x''"
    by blast
  with d s show ?thesis
    by (simp only: n i b) blast
qed

subsection \<open>Aspects\<close>

text \<open>
  C9. The aspects declared: \<^verbatim>\<open>ListIndexesOperation\<close> has exactly
  \<^verbatim>\<open>READ_OPERATION\<close>, \<^verbatim>\<open>RETRYABLE\<close> and \<^verbatim>\<open>CURSOR_CREATING\<close>;
  \<^verbatim>\<open>CreateIndexesOperation\<close> and \<^verbatim>\<open>DropIndexOperation\<close> have exactly
  \<^verbatim>\<open>WRITE_OPERATION\<close>. So neither of the two has the aspect \<^verbatim>\<open>RETRYABLE\<close>, and
  the retry rule never permits a retry of them, whatever the failure, the number of
  retries so far and the deployment's support of retryable writes; a first transient
  failure of \<^verbatim>\<open>ListIndexesOperation\<close> may be retried.
\<close>

theorem index_operation_aspects:
  "declared_aspects ListIndexes = {READ_OPERATION, RETRYABLE, CURSOR_CREATING} \<and>
   declared_aspects CreateIndexes = {WRITE_OPERATION} \<and>
   declared_aspects DropIndex = {WRITE_OPERATION} \<and>
   \<not> hasAspect CreateIndexes RETRYABLE \<and>
   \<not> hasAspect DropIndex RETRYABLE \<and>
   (\<forall>failure retries supportsRetryableWrites.
      \<not> retry_permitted CreateIndexes failure retries supportsRetryableWrites \<and>
      \<not> retry_permitted DropIndex failure retries supportsRetryableWrites) \<and>
   (\<forall>supportsRetryableWrites. retry_permitted ListIndexes Transient 0 supportsRetryableWrites)"
  by (simp add: declared_aspects_def defineAspects_def hasAspect_def retry_permitted_def)

subsection \<open>The server and the id a getMore goes to\<close>

lemma last_reported_id_append:
  "last_reported_id (hist @ [e]) =
     (case reported_id e of Some i \<Rightarrow> Some i | None \<Rightarrow> last_reported_id hist)"
  by (induction hist) (auto split: option.splits)

lemma bound_server_append:
  assumes "\<And>d c os. fst e \<noteq> RunCommandOperation d c os"
  shows "bound_server (hist @ [e]) = bound_server hist"
proof (induction hist rule: bound_server.induct)
  case 1
  obtain operation srv result where e: "e = (operation, srv, result)" by (cases e)
  with assms show ?case by (cases operation; cases result) auto
qed auto

lemma initialize_outcome:
  "\<exists>os srv result.
     initialize rt sess this hist =
       (map_sum id (InitialCursorResponse srv sess) result, this,
        hist @ [(RunCommandOperation (db this) (command this) os, (srv, result))])"
proof -
  define os where "os = set_entry ''responseType'' (JStr ''CursorResponse'')
                  (set_entry ''omitMaxTimeMS''
                     (get_prop (cursorOptions this) ''omitMaxTimeMSOnInitialCommand'')
                     (set_entry ''readPreference'' (get_prop (cursorOptions this) ''readPreference'')
                        (set_entry ''session'' sess (cursorOptions this))))"
  obtain srv result
    where out: "executeOperation rt hist (RunCommandOperation (db this) (command this) os) = (srv, result)"
    by (cases "executeOperation rt hist (RunCommandOperation (db this) (command this) os)")
  have "initialize rt sess this hist =
       (map_sum id (InitialCursorResponse srv sess) result, this,
        hist @ [(RunCommandOperation (db this) (command this) os, (srv, result))])"
    by (cases result) (simp_all add: initialize_def Let_def os_def [symmetric] out)
  then show ?thesis by blast
qed

lemma get_mores_follow_append:
  assumes follow: "get_mores_follow hist"
    and bound: "bound_server (hist @ [e]) = bound_server hist"
    and new: "\<And>ns cid srv os out. e = (GetMoreOperation ns cid srv os, out) \<Longrightarrow>
                srv = bound_server hist \<and> cid = last_reported_id hist"
  shows "get_mores_follow (hist @ [e])"
  unfolding get_mores_follow_def
proof (intro allI impI)
  fix n ns cid srv os out
  assume n: "n < length (hist @ [e])"
    and at: "(hist @ [e]) ! n = (GetMoreOperation ns cid srv os, out)"
  show "srv = bound_server (hist @ [e]) \<and> cid = last_reported_id (take n (hist @ [e]))"
  proof (cases "n < length hist")
    case True
    with at have "hist ! n = (GetMoreOperation ns cid srv os, out)"
      by (simp add: nth_append)
    with follow True have "srv = bound_server hist \<and> cid = last_reported_id (take n hist)"
      unfolding get_mores_follow_def by blast
    with True show ?thesis by (simp add: bound)
  next
    case False
    with n have n_eq: "n = length hist" by simp
    with at have "e = (GetMoreOperation ns cid srv os, out)" by simp
    from new [OF this] show ?thesis by (simp add: bound n_eq)
  qed
qed

lemma invariant_initialize:
  assumes "cursor_invariant (this, hist)" and "state this = UNINITIALIZED"
  shows "cursor_invariant (after (cursor_initialize rt this hist))"
proof -
  from assms have empty: "hist = []" and fresh: "server this = None" "cursor_id this = None"
    by (simp_all add: cursor_invariant_def)
  obtain os srv result where out:
    "initialize rt (session this) (this\<lparr>state := INITIALIZING\<rparr>) hist =
       (map_sum id (InitialCursorResponse srv (session this)) result, this\<lparr>state := INITIALIZING\<rparr>,
        hist @ [(RunCommandOperation (db (this\<lparr>state := INITIALIZING\<rparr>))
                   (command (this\<lparr>state := INITIALIZING\<rparr>)) os, (srv, result))])"
    using initialize_outcome [of rt "session this" "this\<lparr>state := INITIALIZING\<rparr>" hist] by blast
  show ?thesis
  proof (cases result)
    case (Inl e)
    with out empty fresh show ?thesis
      by (simp add: cursor_initialize_def after_def cursor_invariant_def get_mores_follow_def)
  next
    case (Inr response)
    with out empty fresh show ?thesis
      by (simp add: cursor_initialize_def after_def cursor_invariant_def get_mores_follow_def)
  qed
qed


lemma invariant_fetch:
  assumes inv: "cursor_invariant (this, hist)" and st: "state this \<noteq> UNINITIALIZED"
  shows "cursor_invariant (after (cursor_fetch rt this hist))"
proof -
  from inv st have srv: "server this = bound_server hist"
    and cid: "cursor_id this = last_reported_id hist"
    and follow: "get_mores_follow hist"
    by (simp_all add: cursor_invariant_def)
  define os where "os = set_entry ''omitMaxTimeMS''
                  (get_prop (cursorOptions this) ''omitMaxTimeMSOnGetMore'')
                  (set_entries (set_entry ''session'' (session this) (cursorOptions this))
                     (getMoreOptions this))"
  define gm where "gm = GetMoreOperation (namespace this) (cursor_id this) (server this) os"
  obtain osrv result where res: "executeOperation rt hist gm = (osrv, result)"
    by (cases "executeOperation rt hist gm")
  define hist' where "hist' = hist @ [(gm, (osrv, result))]"
  have out': "getMore rt 0 this hist = (result, this, hist')"
    by (simp add: getMore_def Let_def os_def [symmetric] gm_def [symmetric] res hist'_def)
  have bound: "bound_server hist' = bound_server hist"
    unfolding hist'_def by (rule bound_server_append) (simp add: gm_def)
  have follow': "get_mores_follow hist'"
    unfolding hist'_def using follow bound [unfolded hist'_def]
    by (rule get_mores_follow_append) (simp add: gm_def srv cid)
  have last: "last_reported_id hist' =
                (case result of Inl e \<Rightarrow> last_reported_id hist
                 | Inr response \<Rightarrow> Some (response_id response))"
    by (cases result) (simp_all add: hist'_def last_reported_id_append gm_def)
  show ?thesis
  proof (cases result)
    case (Inl e)
    then have "after (cursor_fetch rt this hist) = (this\<lparr>state := CLOSED\<rparr>, hist')"
      by (simp add: cursor_fetch_def after_def out')
    moreover have "cursor_invariant (this\<lparr>state := CLOSED\<rparr>, hist')"
      using follow' by (simp add: cursor_invariant_def bound last Inl srv cid)
    ultimately show ?thesis by simp
  next
    case (Inr response)
    define st' where "st' = (if response_id response = 0 then EXHAUSTED else OPEN)"
    have st': "st' \<noteq> UNINITIALIZED" by (simp add: st'_def)
    from Inr have "after (cursor_fetch rt this hist) =
        (this\<lparr>buffer := buffer this @ batch response,
               cursor_id := Some (response_id response),
               state := st'\<rparr>, hist')"
      by (simp add: cursor_fetch_def after_def out' st'_def)
    moreover have "cursor_invariant (this\<lparr>buffer := buffer this @ batch response,
               cursor_id := Some (response_id response),
               state := st'\<rparr>, hist')"
      using follow' st' by (simp add: cursor_invariant_def bound last Inr srv)
    ultimately show ?thesis by simp
  qed
qed

lemma invariant_close:
  assumes inv: "cursor_invariant (this, hist)"
  shows "cursor_invariant (after (cursor_close rt this hist))"
proof -
  let ?kill = "KillCursorsOperation (namespace this) (cursor_id this) (server this)"
  let ?e = "(?kill, executeOperation rt hist ?kill)"
  have bound: "bound_server (hist @ [?e]) = bound_server hist"
    by (rule bound_server_append) simp
  have last: "last_reported_id (hist @ [?e]) = last_reported_id hist"
    by (cases "executeOperation rt hist ?kill") (simp add: last_reported_id_append)
  have follow: "get_mores_follow (hist @ [?e])" if "get_mores_follow hist"
    using that bound by (rule get_mores_follow_append) simp
  show ?thesis
  proof (cases "state this = UNINITIALIZED")
    case True
    with inv show ?thesis
      by (simp add: cursor_close_def after_def cursor_invariant_def get_mores_follow_def)
  next
    case False
    with inv bound last follow show ?thesis
      by (simp add: cursor_close_def after_def cursor_invariant_def Let_def)
  qed
qed

lemma invariant_step:
  assumes "cursor_invariant cfg"
  shows "cursor_invariant (cursor_step rt cfg ev)"
proof -
  obtain this hist where cfg: "cfg = (this, hist)" by (cases cfg)
  show ?thesis
  proof (cases ev)
    case Initialize
    with assms invariant_initialize [of this hist rt] show ?thesis by (simp add: cfg)
  next
    case Fetch
    with assms invariant_fetch [of this hist rt] show ?thesis by (auto simp: cfg)
  next
    case Consume
    with assms show ?thesis by (auto simp: cfg cursor_invariant_def)
  next
    case Close
    with assms invariant_close [of this hist rt] show ?thesis by (simp add: cfg)
  qed (use assms in \<open>simp_all add: cfg cursor_invariant_def after_def setComment_def
        setMaxTimeMS_def setBatchSize_def clone_def withReadConcern_def addCursorFlag_def
        maxTimeMS_def batchSize_def\<close>)
qed

lemma invariant_run:
  "cursor_invariant cfg \<Longrightarrow> cursor_invariant (run rt events cfg)"
  unfolding run_def
  by (induction events arbitrary: cfg) (simp_all add: invariant_step)

lemma invariant_new: "cursor_invariant (RunCommandCursor_new database cmd opts, [])"
  by (simp add: cursor_invariant_def RunCommandCursor_new_def get_mores_follow_def)

lemma fetch_keeps_server:
  "server (fst (after (cursor_fetch rt this hist))) = server this \<and>
   state (fst (after (cursor_fetch rt this hist))) \<noteq> UNINITIALIZED"
  by (simp add: cursor_fetch_def getMore_def after_def Let_def split_beta split: sum.splits)

lemma close_keeps_server:
  "state this \<noteq> UNINITIALIZED \<Longrightarrow>
   server (fst (after (cursor_close rt this hist))) = server this \<and>
   state (fst (after (cursor_close rt this hist))) \<noteq> UNINITIALIZED"
  by (simp add: cursor_close_def after_def Let_def)

lemma step_keeps_server:
  assumes "state (fst cfg) \<noteq> UNINITIALIZED"
  shows "server (fst (cursor_step rt cfg ev)) = server (fst cfg) \<and>
         state (fst (cursor_step rt cfg ev)) \<noteq> UNINITIALIZED"
proof -
  obtain this hist where cfg: "cfg = (this, hist)" by (cases cfg)
  with assms have st: "state this \<noteq> UNINITIALIZED" by simp
  show ?thesis
  proof (cases ev)
    case Fetch
    with st fetch_keeps_server [of rt this hist] show ?thesis by (simp add: cfg)
  next
    case Close
    with close_keeps_server [OF st, of rt hist] show ?thesis by (simp add: cfg)
  qed (use st in \<open>simp_all add: cfg after_def setComment_def
        setMaxTimeMS_def setBatchSize_def clone_def withReadConcern_def addCursorFlag_def
        maxTimeMS_def batchSize_def\<close>)
qed

lemma run_keeps_server:
  "state (fst cfg) \<noteq> UNINITIALIZED \<Longrightarrow>
   server (fst (run rt events cfg)) = server (fst cfg) \<and>
   state (fst (run rt events cfg)) \<noteq> UNINITIALIZED"
  unfolding run_def
proof (induction events arbitrary: cfg)
  case Nil
  then show ?case by simp
next
  case (Cons ev events)
  from step_keeps_server [OF Cons.prems, of rt ev]
  have "server (fst (cursor_step rt cfg ev)) = server (fst cfg)"
    and "state (fst (cursor_step rt cfg ev)) \<noteq> UNINITIALIZED"
    by simp_all
  with Cons.IH [of "cursor_step rt cfg ev"] show ?case by simp
qed

lemma captured_id_append:
  assumes "\<And>d c os. fst e \<noteq> RunCommandOperation d c os"
  shows "captured_id (hist @ [e]) = captured_id hist"
proof (induction hist rule: captured_id.induct)
  case 1
  obtain operation srv result where e: "e = (operation, srv, result)" by (cases e)
  with assms show ?case by (cases operation; cases result) auto
qed auto

lemma get_mores_captured_append:
  assumes captured: "get_mores_captured hist"
    and same: "captured_id (hist @ [e]) = captured_id hist"
    and new: "\<And>ns cid srv os out. e = (GetMoreOperation ns cid srv os, out) \<Longrightarrow>
                cid = captured_id hist \<and> cid \<noteq> None"
  shows "get_mores_captured (hist @ [e])"
  unfolding get_mores_captured_def
proof (intro allI impI)
  fix n ns cid srv os out
  assume n: "n < length (hist @ [e])"
    and at: "(hist @ [e]) ! n = (GetMoreOperation ns cid srv os, out)"
  show "cid = captured_id (hist @ [e]) \<and> cid \<noteq> None"
  proof (cases "n < length hist")
    case True
    with at have "hist ! n = (GetMoreOperation ns cid srv os, out)"
      by (simp add: nth_append)
    with captured True have "cid = captured_id hist \<and> cid \<noteq> None"
      unfolding get_mores_captured_def by blast
    then show ?thesis using same by auto
  next
    case False
    with n have "n = length hist" by simp
    with at have "e = (GetMoreOperation ns cid srv os, out)" by simp
    from new [OF this] show ?thesis using same by auto
  qed
qed

lemma captured_initialize:
  assumes "cursor_invariant (this, hist)" and "state this = UNINITIALIZED"
  shows "captured_invariant (after (cursor_initialize rt this hist))"
proof -
  from assms have empty: "hist = []"
    by (simp add: cursor_invariant_def)
  obtain os srv result where out:
    "initialize rt (session this) (this\<lparr>state := INITIALIZING\<rparr>) hist =
       (map_sum id (InitialCursorResponse srv (session this)) result, this\<lparr>state := INITIALIZING\<rparr>,
        hist @ [(RunCommandOperation (db (this\<lparr>state := INITIALIZING\<rparr>))
                   (command (this\<lparr>state := INITIALIZING\<rparr>)) os, (srv, result))])"
    using initialize_outcome [of rt "session this" "this\<lparr>state := INITIALIZING\<rparr>" hist] by blast
  show ?thesis
  proof (cases result)
    case (Inl e)
    with out empty show ?thesis
      by (simp add: cursor_initialize_def after_def captured_invariant_def get_mores_captured_def)
  next
    case (Inr response)
    with out empty show ?thesis
      by (simp add: cursor_initialize_def after_def captured_invariant_def get_mores_captured_def)
  qed
qed

lemma captured_fetch:
  assumes conf: "conforming rt"
    and inv: "cursor_invariant (this, hist)"
    and cap: "captured_invariant (this, hist)"
    and st: "state this = OPEN"
  shows "captured_invariant (after (cursor_fetch rt this hist))"
proof -
  from inv st have cid: "cursor_id this = last_reported_id hist"
    by (simp add: cursor_invariant_def)
  from cap st have last: "last_reported_id hist = captured_id hist"
    and some: "captured_id hist \<noteq> None"
    and captured: "get_mores_captured hist"
    by (simp_all add: captured_invariant_def)
  define os where "os = set_entry ''omitMaxTimeMS''
                  (get_prop (cursorOptions this) ''omitMaxTimeMSOnGetMore'')
                  (set_entries (set_entry ''session'' (session this) (cursorOptions this))
                     (getMoreOptions this))"
  define gm where "gm = GetMoreOperation (namespace this) (cursor_id this) (server this) os"
  obtain osrv result where res: "executeOperation rt hist gm = (osrv, result)"
    by (cases "executeOperation rt hist gm")
  define hist' where "hist' = hist @ [(gm, (osrv, result))]"
  have out: "getMore rt 0 this hist = (result, this, hist')"
    by (simp add: getMore_def Let_def os_def [symmetric] gm_def [symmetric] res hist'_def)
  have same: "captured_id hist' = captured_id hist"
    unfolding hist'_def by (rule captured_id_append) (simp add: gm_def)
  have captured': "get_mores_captured hist'"
    unfolding hist'_def using captured same [unfolded hist'_def]
    by (rule get_mores_captured_append) (use some in \<open>auto simp: gm_def cid last\<close>)
  show ?thesis
  proof (cases result)
    case (Inl e)
    then have "after (cursor_fetch rt this hist) = (this\<lparr>state := CLOSED\<rparr>, hist')"
      by (simp add: cursor_fetch_def after_def out)
    moreover have "captured_invariant (this\<lparr>state := CLOSED\<rparr>, hist')"
      using captured' by (simp add: captured_invariant_def)
    ultimately show ?thesis by simp
  next
    case (Inr response)
    define st' where "st' = (if response_id response = 0 then EXHAUSTED else OPEN)"
    from conf res Inr
    have reply: "Some (response_id response) = cursor_id this \<or> response_id response = 0"
      unfolding conforming_def gm_def by blast
    have last': "last_reported_id hist' = Some (response_id response)"
      by (simp add: hist'_def last_reported_id_append gm_def Inr)
    have open': "last_reported_id hist' = captured_id hist' \<and> captured_id hist' \<noteq> None"
      if "st' = OPEN"
    proof -
      from that have "response_id response \<noteq> 0"
        by (simp add: st'_def split: if_splits)
      with reply have "Some (response_id response) = captured_id hist"
        by (simp add: cid last)
      then show ?thesis using some by (auto simp: last' same)
    qed
    from Inr have "after (cursor_fetch rt this hist) =
        (this\<lparr>buffer := buffer this @ batch response,
               cursor_id := Some (response_id response),
               state := st'\<rparr>, hist')"
      by (simp add: cursor_fetch_def after_def out st'_def)
    moreover have "captured_invariant (this\<lparr>buffer := buffer this @ batch response,
               cursor_id := Some (response_id response),
               state := st'\<rparr>, hist')"
      using captured' open' by (simp add: captured_invariant_def)
    ultimately show ?thesis by simp
  qed
qed

lemma captured_close:
  assumes cap: "captured_invariant (this, hist)"
  shows "captured_invariant (after (cursor_close rt this hist))"
proof -
  let ?kill = "KillCursorsOperation (namespace this) (cursor_id this) (server this)"
  let ?e = "(?kill, executeOperation rt hist ?kill)"
  from cap have captured: "get_mores_captured hist"
    by (simp add: captured_invariant_def)
  have same: "captured_id (hist @ [?e]) = captured_id hist"
    by (rule captured_id_append) simp
  have "get_mores_captured (hist @ [?e])"
    using captured same by (rule get_mores_captured_append) simp
  with captured show ?thesis
    by (simp add: cursor_close_def after_def captured_invariant_def Let_def)
qed

lemma captured_step:
  assumes conf: "conforming rt"
    and inv: "cursor_invariant cfg"
    and cap: "captured_invariant cfg"
  shows "captured_invariant (cursor_step rt cfg ev)"
proof -
  obtain this hist where cfg: "cfg = (this, hist)" by (cases cfg)
  show ?thesis
  proof (cases ev)
    case Initialize
    with inv cap captured_initialize [of this hist rt] show ?thesis by (simp add: cfg)
  next
    case Fetch
    with conf inv cap captured_fetch [of rt this hist] show ?thesis by (simp add: cfg)
  next
    case Consume
    with cap show ?thesis by (auto simp: cfg captured_invariant_def)
  next
    case Close
    with cap captured_close [of this hist rt] show ?thesis by (simp add: cfg)
  qed (use cap in \<open>simp_all add: cfg captured_invariant_def after_def setComment_def
        setMaxTimeMS_def setBatchSize_def clone_def withReadConcern_def addCursorFlag_def
        maxTimeMS_def batchSize_def\<close>)
qed

lemma captured_run:
  assumes "conforming rt"
  shows "cursor_invariant cfg \<Longrightarrow> captured_invariant cfg \<Longrightarrow>
           captured_invariant (run rt events cfg)"
  unfolding run_def
proof (induction events arbitrary: cfg)
  case Nil
  then show ?case by simp
next
  case (Cons ev events)
  have "cursor_invariant (cursor_step rt cfg ev)"
    using Cons.prems(1) by (rule invariant_step)
  moreover have "captured_invariant (cursor_step rt cfg ev)"
    using assms Cons.prems by (rule captured_step)
  ultimately show ?case
    using Cons.IH [of "cursor_step rt cfg ev"] by simp
qed

lemma captured_new: "captured_invariant (RunCommandCursor_new database cmd opts, [])"
  by (simp add: captured_invariant_def RunCommandCursor_new_def get_mores_captured_def)

lemma example_runtime_conforming: "conforming (example_runtime docs)"
  by (simp add: conforming_def example_runtime_def split: option.splits)

text \<open>
  C4. Take any life of a raw-command cursor: any sequence of events on a newly
  constructed cursor. Every \<^verbatim>\<open>GetMoreOperation\<close> issued in it went to the server
  that the initial command bound and carried the id of the last response before it,
  whatever \<^verbatim>\<open>executeOperation\<close> does; and, with a server that keeps to the cursor
  protocol, that id is the cursor id captured at the initialization. Once the cursor
  is initialized its server is the one the initial command bound and its id the one of
  the last response, and the server stays what it is whatever happens to the cursor
  afterwards.
\<close>

theorem get_more_targets_bound_server:
  assumes "run rt events (RunCommandCursor_new database cmd opts, []) = (this, hist)"
  shows "(\<forall>n < length hist. \<forall>ns cid srv os out.
            hist ! n = (GetMoreOperation ns cid srv os, out) \<longrightarrow>
              srv = bound_server hist \<and> cid = last_reported_id (take n hist) \<and>
              (conforming rt \<longrightarrow> cid = captured_id hist \<and> cid \<noteq> None)) \<and>
         (state this \<noteq> UNINITIALIZED \<longrightarrow>
            server this = bound_server hist \<and>
            cursor_id this = last_reported_id hist \<and>
            (\<forall>rt' more. server (fst (run rt' more (this, hist))) = server this))"
proof -
  have "cursor_invariant (run rt events (RunCommandCursor_new database cmd opts, []))"
    by (rule invariant_run) (rule invariant_new)
  then have inv: "cursor_invariant (this, hist)"
    by (simp only: assms)
  then have follow: "get_mores_follow hist"
    by (simp add: cursor_invariant_def)
  have captured: "get_mores_captured hist" if conf: "conforming rt"
  proof -
    have "captured_invariant (run rt events (RunCommandCursor_new database cmd opts, []))"
      using conf invariant_new captured_new by (rule captured_run)
    then show ?thesis
      by (simp add: assms captured_invariant_def)
  qed
  have first: "srv = bound_server hist \<and> cid = last_reported_id (take n hist) \<and>
               (conforming rt \<longrightarrow> cid = captured_id hist \<and> cid \<noteq> None)"
    if "n < length hist" and "hist ! n = (GetMoreOperation ns cid srv os, out)"
    for n ns cid srv os out
  proof -
    from follow that have "srv = bound_server hist \<and> cid = last_reported_id (take n hist)"
      unfolding get_mores_follow_def by blast
    moreover from captured that have "cid = captured_id hist \<and> cid \<noteq> None" if "conforming rt"
      using that unfolding get_mores_captured_def by blast
    ultimately show ?thesis by blast
  qed
  have second: "server this = bound_server hist \<and>
            cursor_id this = last_reported_id hist \<and>
            (\<forall>rt' more. server (fst (run rt' more (this, hist))) = server this)"
    if st: "state this \<noteq> UNINITIALIZED"
  proof -
    from inv st have "server this = bound_server hist \<and> cursor_id this = last_reported_id hist"
      by (simp add: cursor_invariant_def)
    moreover have "server (fst (run rt' more (this, hist))) = server this" for rt' more
      using run_keeps_server [of "(this, hist)" rt' more] st by simp
    ultimately show ?thesis by blast
  qed
  from first second show ?thesis by blast
qed

theorem get_more_targets_bound_server_witness:
  "conforming (example_runtime []) \<and>
   captured_id (snd (run (example_runtime []) [Initialize, Fetch, Fetch] (example_cursor, []))) =
     Some 7 \<and>
   bound_server (snd (run (example_runtime []) [Initialize, Fetch, Fetch] (example_cursor, []))) =
     Some 1 \<and>
   get_more_targets (snd (run (example_runtime []) [Initialize, Fetch, Fetch] (example_cursor, []))) =
     [(Some 7, Some 1), (Some 7, Some 1)] \<and>
   state (fst (run (example_runtime []) [Initialize, Fetch, Fetch] (example_cursor, []))) =
     EXHAUSTED \<and>
   server (fst (run (example_runtime []) [Initialize, Fetch, Fetch] (example_cursor, []))) =
     Some 1 \<and>
   server (fst (run (example_runtime []) [Consume, Close]
     (run (example_runtime []) [Initialize, Fetch, Fetch] (example_cursor, [])))) = Some 1"
proof -
  have computed:
    "captured_id (snd (run (example_runtime []) [Initialize, Fetch, Fetch] (example_cursor, []))) =
     Some 7 \<and>
   bound_server (snd (run (example_runtime []) [Initialize, Fetch, Fetch] (example_cursor, []))) =
     Some 1 \<and>
   get_more_targets (snd (run (example_runtime []) [Initialize, Fetch, Fetch] (example_cursor, []))) =
     [(Some 7, Some 1), (Some 7, Some 1)] \<and>
   state (fst (run (example_runtime []) [Initialize, Fetch, Fetch] (example_cursor, []))) =
     EXHAUSTED"
    by code_simp
  from get_more_targets_bound_server
         [of "example_runtime []" "[Initialize, Fetch, Fetch]"
             "\<lparr>MongoDBNamespace.db = ''d'', MongoDBNamespace.collection = ''c''\<rparr>"
             "[(''aggregate'', JStr ''c''), (''cursor'', JObj [])]" "[]"
             "fst (run (example_runtime []) [Initialize, Fetch, Fetch] (example_cursor, []))"
             "snd (run (example_runtime []) [Initialize, Fetch, Fetch] (example_cursor, []))"]
  have bound: "state (fst (run (example_runtime []) [Initialize, Fetch, Fetch] (example_cursor, []))) \<noteq> UNINITIALIZED \<longrightarrow>
     server (fst (run (example_runtime []) [Initialize, Fetch, Fetch] (example_cursor, []))) =
       bound_server (snd (run (example_runtime []) [Initialize, Fetch, Fetch] (example_cursor, []))) \<and>
     server (fst (run (example_runtime []) [Consume, Close]
       (run (example_runtime []) [Initialize, Fetch, Fetch] (example_cursor, [])))) =
       server (fst (run (example_runtime []) [Initialize, Fetch, Fetch] (example_cursor, [])))"
    by (simp add: example_cursor_def)
  from computed bound example_runtime_conforming [of "[]"] show ?thesis by simp
qed

end
